theory Spec2Isabelle
  imports Complex_Main "HOL-Library.Multiset" "HOL-Library.Sublist" "HOL-Library.AList"
begin

text \<open>
  A shallow embedding of the analysis core of \<open>claude_helper\<close>: the analysis cache
  (utils/cache.py), the base analyzer with its dependency resolution (analyzers/base.py),
  the Python analyzer (analyzers/python.py) and the React analyzer
  (analyzers/web/react.py, types/web.py). Mutable state is passed explicitly, an exception
  is a value, and what lies outside the repository (the clock, \<open>json\<close>, \<open>ast.parse\<close>,
  \<open>inspect.cleandoc\<close>, \<open>re\<close>, the file system, the room left under the interpreter's
  recursion limit) is a parameter.
\<close>

section \<open>Exceptions\<close>

text \<open>
  The exceptions the modelled code raises, as values. A function that may raise returns
  \<open>exn + 'a\<close>, with \<open>Inl\<close> for the raised exception.
\<close>

datatype exn =
    ValueError string
  | TypeError
  | AttributeError
  | IndexError
  | RecursionError

section \<open>The analysis cache (utils/cache.py)\<close>

text \<open>
  \<open>CacheConfig\<close> is declared in config/settings.py, whose class declarations are not part
  of the sources; the cache reads three of its fields: \<open>enabled\<close>, \<open>ttl\<close> (minutes) and
  \<open>max_size\<close> (megabytes).
\<close>

record CacheConfig =
  enabled :: bool
  ttl :: int
  max_size :: int

text \<open>
  One row of the table \<open>analysis_cache\<close>. The table is the list of its rows in rowid
  order. \<open>file_size\<close> is \<open>len(json.dumps(...))\<close>, a length.
\<close>

record cache_row =
  file_path :: string
  content_hash :: string
  analysis_data :: string
  timestamp :: int
  file_size :: nat

type_synonym cache_db = "cache_row list"

text \<open>
  \<open>SELECT analysis_data, timestamp ... WHERE file_path = ? AND content_hash = ?\<close> followed by
  \<open>fetchone()\<close>. \<open>time.time()\<close> is the parameter \<open>now\<close>, an exact number of seconds;
  \<open>json.loads\<close> is the parameter \<open>loads\<close>.
\<close>

definition AnalysisCache_get ::
  "CacheConfig \<Rightarrow> (string \<Rightarrow> 'd) \<Rightarrow> rat \<Rightarrow> cache_db \<Rightarrow> string \<Rightarrow> string \<Rightarrow> 'd option" where
  "AnalysisCache_get cfg loads now db fp h =
     (if \<not> enabled cfg then None
      else case find (\<lambda>r. file_path r = fp \<and> content_hash r = h) db of
             None \<Rightarrow> None
           | Some r \<Rightarrow>
               if now - of_int (timestamp r) \<le> of_int (ttl cfg * 60)
               then Some (loads (analysis_data r))
               else None)"

text \<open>
  \<open>_cleanup_if_needed\<close>: \<open>SELECT SUM(file_size)\<close> (\<open>or 0\<close> on the empty table), the comparison
  with \<open>max_size * 1024 * 1024\<close>, and
  \<open>DELETE ... WHERE file_path IN (SELECT file_path ... ORDER BY timestamp ASC LIMIT ?)\<close>
  with the limit \<open>int(total_size * 0.2)\<close>. The float product truncated is
  \<open>total_size div 5\<close> (the two agree for every total below \<open>2 ^ 50\<close>). Rows of equal
  timestamp are taken in rowid order, as the index on \<open>timestamp\<close> lists them.
\<close>

definition cleanup_if_needed :: "CacheConfig \<Rightarrow> cache_db \<Rightarrow> cache_db" where
  "cleanup_if_needed cfg db =
     (let total_size = sum_list (map file_size db) in
      if int total_size > max_size cfg * 1024 * 1024 then
        let victims = take (total_size div 5) (map file_path (sort_key timestamp db))
        in filter (\<lambda>r. file_path r \<notin> set victims) db
      else db)"

text \<open>
  \<open>INSERT OR REPLACE\<close> on the primary key \<open>file_path\<close>: the row of that path, if any, is
  deleted and the new row is added with a fresh rowid.
\<close>

definition insert_or_replace :: "cache_row \<Rightarrow> cache_db \<Rightarrow> cache_db" where
  "insert_or_replace new db = filter (\<lambda>r. file_path r \<noteq> file_path new) db @ [new]"

text \<open>
  \<open>set\<close>. \<open>json.dumps\<close> is the parameter \<open>dumps\<close>; it raises TypeError (\<open>None\<close>) on a
  value that is not JSON-serializable, after the clean-up has been committed.
  \<open>int(time.time())\<close> is \<open>\<lfloor>now\<rfloor>\<close>, for a time after the epoch.
\<close>

definition AnalysisCache_set ::
  "CacheConfig \<Rightarrow> ('d \<Rightarrow> string option) \<Rightarrow> rat \<Rightarrow> cache_db \<Rightarrow> string \<Rightarrow> string \<Rightarrow> 'd
     \<Rightarrow> (exn + unit) \<times> cache_db" where
  "AnalysisCache_set cfg dumps now db fp h data =
     (if \<not> enabled cfg then (Inr (), db)
      else
        let db1 = cleanup_if_needed cfg db in
        case dumps data of
          None \<Rightarrow> (Inl TypeError, db1)
        | Some s \<Rightarrow>
            (Inr (),
             insert_or_replace
               \<lparr>file_path = fp, content_hash = h, analysis_data = s,
                timestamp = \<lfloor>now\<rfloor>, file_size = length s\<rparr> db1))"

text \<open>The primary key: no two rows of the table have the same \<open>file_path\<close>.\<close>

definition primary_key :: "cache_db \<Rightarrow> bool" where
  "primary_key db = distinct (map file_path db)"

text \<open>A table of three rows of two bytes each, the second the oldest.\<close>

definition example_db :: cache_db where
  "example_db = [\<lparr>file_path = ''a.py'', content_hash = ''h1'', analysis_data = ''{}'', timestamp = 30, file_size = 2\<rparr>,
          \<lparr>file_path = ''b.py'', content_hash = ''h2'', analysis_data = ''{}'', timestamp = 10, file_size = 2\<rparr>,
          \<lparr>file_path = ''c.py'', content_hash = ''h3'', analysis_data = ''{}'', timestamp = 20, file_size = 2\<rparr>]"

section \<open>Python strings\<close>

text \<open>
  A Python \<open>str\<close> is modelled as a \<open>string\<close> whose characters are the code points below
  256. \<open>isspace\<close> and the line boundaries of \<open>splitlines\<close> are those of Python on that
  range.
\<close>

definition isspace :: "char \<Rightarrow> bool" where
  "isspace c = (of_char c \<in> {9, 10, 11, 12, 13, 28, 29, 30, 31, 32, 133, 160 :: nat})"

definition is_linebreak :: "char \<Rightarrow> bool" where
  "is_linebreak c = (of_char c \<in> {10, 11, 12, 13, 28, 29, 30, 133 :: nat})"

definition lstrip :: "string \<Rightarrow> string" where
  "lstrip s = dropWhile isspace s"

definition strip :: "string \<Rightarrow> string" where
  "strip s = rev (dropWhile isspace (rev (dropWhile isspace s)))"

text \<open>
  \<open>str.splitlines()\<close>: \<open>acc\<close> is the current line, reversed. \<open>\r\n\<close> is one boundary; a
  boundary at the very end opens no further line.
\<close>

fun splitlines_acc :: "string \<Rightarrow> string \<Rightarrow> string list" where
  "splitlines_acc acc [] = (if acc = [] then [] else [rev acc])"
| "splitlines_acc acc (c # cs) =
     (if c = CHR 0x0D then
        (case cs of
           [] \<Rightarrow> [rev acc]
         | d # ds \<Rightarrow>
             if d = CHR 0x0A then rev acc # splitlines_acc [] ds
             else rev acc # splitlines_acc [] cs)
      else if is_linebreak c then rev acc # splitlines_acc [] cs
      else splitlines_acc (c # acc) cs)"

definition splitlines :: "string \<Rightarrow> string list" where
  "splitlines s = splitlines_acc [] s"

text \<open>\<open>sub in s\<close>, \<open>s.startswith(p)\<close>, \<open>sep.join(xs)\<close> and \<open>s.replace('.', '/')\<close>.\<close>

fun str_in :: "string \<Rightarrow> string \<Rightarrow> bool" where
  "str_in sub [] = (sub = [])"
| "str_in sub (c # cs) = (prefix sub (c # cs) \<or> str_in sub cs)"

definition startswith :: "string \<Rightarrow> string \<Rightarrow> bool" where
  "startswith s p = prefix p s"

fun join :: "string \<Rightarrow> string list \<Rightarrow> string" where
  "join sep [] = []"
| "join sep [x] = x"
| "join sep (x # y # ys) = x @ sep @ join sep (y # ys)"

definition replace_char :: "char \<Rightarrow> char \<Rightarrow> string \<Rightarrow> string" where
  "replace_char a b s = map (\<lambda>c. if c = a then b else c) s"

text \<open>\<open>str(n)\<close> for an integer \<open>n\<close>.\<close>

fun str_nat :: "nat \<Rightarrow> string" where
  "str_nat n =
     (if n < 10 then [''0123456789'' ! n]
      else str_nat (n div 10) @ [''0123456789'' ! (n mod 10)])"

definition str_int :: "int \<Rightarrow> string" where
  "str_int i = (if i < 0 then CHR ''-'' # str_nat (nat (- i)) else str_nat (nat i))"

section \<open>The structural model (types/common.py)\<close>

datatype LanguageType = PYTHON | TYPESCRIPT | JAVASCRIPT | REACT

record FileLocation =
  line :: int
  column :: int
  end_line :: "int option"
  end_column :: "int option"

record CodeBlock =
  content :: string
  location :: FileLocation
  block_type :: string

record Dependency =
  name :: string
  version :: "string option"
  is_local :: bool
  import_path :: "string option"
  used_in :: "FileLocation list option"

text \<open>
  A value of the metrics dictionary: an \<open>int\<close>, or the \<open>float\<close> that the true division
  \<open>a / b\<close> of two integers returns, kept as its two operands.
\<close>

datatype metric = MInt int | MFloat int int

text \<open>
  \<open>AnalysisResult\<close>. Its field \<open>file_path\<close> is \<open>result_file_path\<close> here (the cache row has
  a column of that name). A dictionary is the list of its items in insertion order.
\<close>

record AnalysisResult =
  result_file_path :: string
  language :: LanguageType
  blocks :: "CodeBlock list"
  dependencies :: "Dependency list"
  errors :: "string list"
  warnings :: "string list"
  metrics :: "(string \<times> metric) list"

text \<open>\<open>AnalysisOptions\<close>: the one field that the modelled methods read.\<close>

record AnalysisOptions =
  max_file_size :: int

definition AnalysisOptions_default :: AnalysisOptions where
  "AnalysisOptions_default = \<lparr>max_file_size = 1024 * 1024\<rparr>"

section \<open>The base analyzer (analyzers/base.py)\<close>

text \<open>
  What the analyzer observes of the file system. A path is the string \<open>str(path)\<close>. A path
  that exists has a size in bytes (\<open>stat().st_size\<close>) and an outcome of
  \<open>read_text(encoding='utf-8')\<close>: the decoded text, or the message of the exception raised.
  \<open>resolve ws p\<close> is \<open>str((ws / p).resolve())\<close>.
\<close>

record file_entry =
  st_size :: nat
  read_text :: "string + string"

record filesystem =
  files :: "string \<rightharpoonup> file_entry"
  resolve :: "string \<Rightarrow> string \<Rightarrow> string"

text \<open>
  The state of a \<open>BaseAnalyzer\<close>: \<open>workspace_path\<close>, \<open>options\<close>, \<open>_file_cache\<close> and
  \<open>_dependency_cache\<close>. (The subclasses add \<open>_import_cache\<close> and \<open>_component_cache\<close>, which
  no method reads or writes.)
\<close>

record analyzer =
  workspace_path :: string
  options :: AnalysisOptions
  file_cache :: "string \<rightharpoonup> string"
  dependency_cache :: "string \<rightharpoonup> string set"

definition BaseAnalyzer_init :: "string \<Rightarrow> analyzer" where
  "BaseAnalyzer_init ws =
     \<lparr>workspace_path = ws, options = AnalysisOptions_default,
      file_cache = Map.empty, dependency_cache = Map.empty\<rparr>"

text \<open>\<open>read_file\<close> returns \<open>None\<close> for a path that does not exist.\<close>

definition read_file ::
  "filesystem \<Rightarrow> analyzer \<Rightarrow> string \<Rightarrow> (exn + string option) \<times> analyzer" where
  "read_file fs s fp =
     (case file_cache s fp of
        Some c \<Rightarrow> (Inr (Some c), s)
      | None \<Rightarrow>
          (case files fs fp of
             None \<Rightarrow> (Inr None, s)
           | Some f \<Rightarrow>
               if int (st_size f) > max_file_size (options s) then
                 (Inl (ValueError (''File '' @ fp @ '' exceeds maximum size (''
                         @ str_int (max_file_size (options s)) @ '' bytes)'')), s)
               else
                 (case read_text f of
                    Inr c \<Rightarrow> (Inr (Some c), s\<lparr>file_cache := (file_cache s)(fp \<mapsto> c)\<rparr>)
                  | Inl e \<Rightarrow> (Inl (ValueError (''Failed to read '' @ fp @ '': '' @ e)), s))))"


text \<open>The truth value of an \<open>Optional[str]\<close>: neither \<open>None\<close> nor the empty string.\<close>

definition truthy :: "string option \<Rightarrow> bool" where
  "truthy x = (case x of None \<Rightarrow> False | Some s \<Rightarrow> s \<noteq> [])"

text \<open>\<open>get_dependencies\<close>, on a result of \<open>AnalysisResult\<close> or of a subclass.\<close>

definition get_dependencies :: "'a AnalysisResult_scheme \<Rightarrow> Dependency list" where
  "get_dependencies analysis = dependencies analysis"

text \<open>
  \<open>analyze_dependencies\<close>, with the abstract method \<open>analyze_file\<close> as the parameter \<open>af\<close>.
  \<open>deps_loop\<close> is the \<open>for dep in analysis.dependencies\<close> loop, \<open>deps\<close> the set built so
  far. An exception of \<open>analyze_file\<close> or of a nested call leaves through every caller.

  The memo \<open>_dependency_cache\<close> is read at the head of a call and written once, after the
  loop (line 93): a path whose call is still running has no entry, so on a chain or a
  cycle of imports the calls nest one per level of depth. The interpreter bounds the
  nesting (\<open>sys.getrecursionlimit()\<close>, 1000 unless changed) and raises \<open>RecursionError\<close> at
  the call that exceeds it. \<open>stack\<close> is the number of further nested calls of
  \<open>analyze_dependencies\<close> (each with the \<open>analyze_file\<close> it makes) that fit below the
  running one; the nested call at line 87 is made with one less, and raises when none is
  left.
\<close>

function analyze_dependencies ::
    "(analyzer \<Rightarrow> string \<Rightarrow> (exn + 'a AnalysisResult_scheme) \<times> analyzer) \<Rightarrow> filesystem
       \<Rightarrow> nat \<Rightarrow> analyzer \<Rightarrow> string \<Rightarrow> int \<Rightarrow> (exn + string set) \<times> analyzer"
  and deps_loop ::
    "(analyzer \<Rightarrow> string \<Rightarrow> (exn + 'a AnalysisResult_scheme) \<times> analyzer) \<Rightarrow> filesystem
       \<Rightarrow> nat \<Rightarrow> int \<Rightarrow> Dependency list \<Rightarrow> string set \<Rightarrow> analyzer
       \<Rightarrow> (exn + string set) \<times> analyzer"
  where
    "analyze_dependencies af fs stack s fp depth =
       (if depth < 1 then (Inr {}, s)
        else
          (case dependency_cache s fp of
             Some cached \<Rightarrow> (Inr cached, s)
           | None \<Rightarrow>
               (case af s fp of
                  (Inl e, s1) \<Rightarrow> (Inl e, s1)
                | (Inr analysis, s1) \<Rightarrow>
                    (case deps_loop af fs stack depth (dependencies analysis) {} s1 of
                       (Inl e, s2) \<Rightarrow> (Inl e, s2)
                     | (Inr deps, s2) \<Rightarrow>
                         (Inr deps,
                          s2\<lparr>dependency_cache := (dependency_cache s2)(fp \<mapsto> deps)\<rparr>)))))"
  | "deps_loop af fs stack depth [] deps s = (Inr deps, s)"
  | "deps_loop af fs stack depth (dep # rest) deps s =
       (if is_local dep \<and> truthy (import_path dep) then
          (let dep_path = resolve fs (workspace_path s) (the (import_path dep)) in
           if files fs dep_path \<noteq> None then
             (if depth > 1 then
                (if stack = 0 then (Inl RecursionError, s)
                 else
                   (case analyze_dependencies af fs (stack - 1) s dep_path (depth - 1) of
                      (Inl e, s1) \<Rightarrow> (Inl e, s1)
                    | (Inr nested_deps, s1) \<Rightarrow>
                        deps_loop af fs stack depth rest (insert dep_path deps \<union> nested_deps) s1))
              else deps_loop af fs stack depth rest (insert dep_path deps) s)
           else deps_loop af fs stack depth rest deps s)
        else deps_loop af fs stack depth rest deps s)"
  by pat_completeness auto
termination
  by (relation "inv_image (less_than <*lex*> less_than <*lex*> less_than)
        (\<lambda>x. case x of
            Inl (af, fs, stack, s, fp, depth) \<Rightarrow> (nat depth, 1 :: nat, 0 :: nat)
          | Inr (af, fs, stack, depth, ds, deps, s) \<Rightarrow> (nat depth, 0, length ds))")
     auto

declare analyze_dependencies.simps [simp del]

text \<open>
  The direct local, on-disk-resolvable dependencies of a dependency list: the resolved
  paths of the edges that are local, carry a non-empty import path and resolve to a path
  that exists.
\<close>

definition direct_dependencies :: "filesystem \<Rightarrow> string \<Rightarrow> Dependency list \<Rightarrow> string set" where
  "direct_dependencies fs ws ds =
     (\<lambda>d. resolve fs ws (the (import_path d))) `
       set (filter (\<lambda>d. is_local d \<and> truthy (import_path d)
                          \<and> files fs (resolve fs ws (the (import_path d))) \<noteq> None) ds)"

section \<open>The Python syntax tree (module ast)\<close>

text \<open>
  The tree that \<open>ast.parse\<close> returns, with the node classes and the fields that the analyzer
  tests or reads. \<open>COther\<close> is a float, complex or bytes constant, given by its \<open>str()\<close>.
  \<open>OtherExpr\<close> and \<open>OtherStmt\<close> stand for a node of any other class, with its child
  expressions and its child statements (a \<open>match_case\<close> is an \<open>OtherStmt\<close> too). The
  children that are neither statements, expressions nor handlers (operators, contexts,
  \<open>arguments\<close>, \<open>arg\<close>, \<open>keyword\<close>, \<open>withitem\<close>, \<open>alias\<close>) match no test of the analyzer:
  they are not nodes of the model, and the expressions below them are children of the
  enclosing node.
\<close>

datatype const_value = CStr string | CNone | CBool bool | CInt int | CEllipsis | COther string

datatype expr =
    BoolOp "expr list"
  | Name string
  | Constant const_value
  | Attribute expr string
  | Call expr "expr list"
  | ListExpr "expr list"
  | DictExpr "expr list"
  | SetExpr "expr list"
  | OtherExpr "expr list"

record arg =
  arg_name :: string
  annotation :: "expr option"

record arguments =
  posonlyargs :: "arg list"
  args :: "arg list"
  vararg :: "arg option"
  kwonlyargs :: "arg list"
  kw_defaults :: "expr option list"
  kwarg :: "arg option"
  defaults :: "expr list"

record import_alias =
  alias_name :: string
  asname :: "string option"

text \<open>
  Fields, in the order of \<open>_fields\<close>:
  \<open>FunctionDef name args body decorator_list returns lineno\<close>,
  \<open>ClassDef name bases keywords body decorator_list\<close>,
  \<open>IfStmt test body orelse\<close> (the class \<open>ast.If\<close>), \<open>While test body orelse\<close>,
  \<open>For target iter body orelse\<close>, \<open>Try body handlers orelse finalbody\<close>,
  \<open>With items body\<close>, \<open>Assert test msg\<close>, \<open>Raise exc cause\<close>,
  \<open>Import names lineno col_offset\<close>, \<open>ImportFrom module names lineno col_offset\<close>,
  \<open>Expr value\<close>, \<open>ExceptHandler type body lineno\<close>.
\<close>

datatype stmt =
    FunctionDef string arguments "stmt list" "expr list" "expr option" int
  | AsyncFunctionDef string arguments "stmt list" "expr list" "expr option" int
  | ClassDef string "expr list" "expr list" "stmt list" "expr list"
  | IfStmt expr "stmt list" "stmt list"
  | While expr "stmt list" "stmt list"
  | For expr expr "stmt list" "stmt list"
  | Try "stmt list" "excepthandler list" "stmt list" "stmt list"
  | TryStar "stmt list" "excepthandler list" "stmt list" "stmt list"
  | With "expr list" "stmt list"
  | Assert expr "expr option"
  | Raise "expr option" "expr option"
  | Import "import_alias list" int int
  | ImportFrom "string option" "import_alias list" int int
  | Expr expr
  | OtherStmt "expr list" "stmt list"
and excepthandler =
    ExceptHandler "expr option" "stmt list" int

datatype node = NModule "stmt list" | NStmt stmt | NExpr expr | NHandler excepthandler

text \<open>The expressions below an \<open>arguments\<close> node, in field order.\<close>

definition arg_exprs :: "arg list \<Rightarrow> expr list" where
  "arg_exprs as = List.map_filter annotation as"

definition arguments_exprs :: "arguments \<Rightarrow> expr list" where
  "arguments_exprs a =
     arg_exprs (posonlyargs a) @ arg_exprs (args a) @ arg_exprs (List.map_filter id [vararg a])
     @ arg_exprs (kwonlyargs a) @ List.map_filter id (kw_defaults a)
     @ arg_exprs (List.map_filter id [kwarg a]) @ defaults a"

definition opt :: "'a option \<Rightarrow> 'a list" where
  "opt x = (case x of None \<Rightarrow> [] | Some y \<Rightarrow> [y])"

text \<open>\<open>ast.iter_child_nodes\<close>.\<close>

fun iter_child_nodes :: "node \<Rightarrow> node list" where
  "iter_child_nodes (NModule body) = map NStmt body"
| "iter_child_nodes (NStmt (FunctionDef nm a body decs ret lineno)) =
     map NExpr (arguments_exprs a) @ map NStmt body @ map NExpr decs @ map NExpr (opt ret)"
| "iter_child_nodes (NStmt (AsyncFunctionDef nm a body decs ret lineno)) =
     map NExpr (arguments_exprs a) @ map NStmt body @ map NExpr decs @ map NExpr (opt ret)"
| "iter_child_nodes (NStmt (ClassDef nm bases kws body decs)) =
     map NExpr bases @ map NExpr kws @ map NStmt body @ map NExpr decs"
| "iter_child_nodes (NStmt (IfStmt test body orelse)) =
     NExpr test # map NStmt body @ map NStmt orelse"
| "iter_child_nodes (NStmt (While test body orelse)) =
     NExpr test # map NStmt body @ map NStmt orelse"
| "iter_child_nodes (NStmt (For target iter body orelse)) =
     NExpr target # NExpr iter # map NStmt body @ map NStmt orelse"
| "iter_child_nodes (NStmt (Try body handlers orelse finalbody)) =
     map NStmt body @ map NHandler handlers @ map NStmt orelse @ map NStmt finalbody"
| "iter_child_nodes (NStmt (TryStar body handlers orelse finalbody)) =
     map NStmt body @ map NHandler handlers @ map NStmt orelse @ map NStmt finalbody"
| "iter_child_nodes (NStmt (With items body)) = map NExpr items @ map NStmt body"
| "iter_child_nodes (NStmt (Assert test msg)) = NExpr test # map NExpr (opt msg)"
| "iter_child_nodes (NStmt (Raise exc cause)) = map NExpr (opt exc) @ map NExpr (opt cause)"
| "iter_child_nodes (NStmt (Import names lineno col_offset)) = []"
| "iter_child_nodes (NStmt (ImportFrom modname names lineno col_offset)) = []"
| "iter_child_nodes (NStmt (Expr v)) = [NExpr v]"
| "iter_child_nodes (NStmt (OtherStmt es ss)) = map NExpr es @ map NStmt ss"
| "iter_child_nodes (NHandler (ExceptHandler ty body lineno)) = map NExpr (opt ty) @ map NStmt body"
| "iter_child_nodes (NExpr (BoolOp vs)) = map NExpr vs"
| "iter_child_nodes (NExpr (Name x)) = []"
| "iter_child_nodes (NExpr (Constant c)) = []"
| "iter_child_nodes (NExpr (Attribute v a)) = [NExpr v]"
| "iter_child_nodes (NExpr (Call f as)) = NExpr f # map NExpr as"
| "iter_child_nodes (NExpr (ListExpr es)) = map NExpr es"
| "iter_child_nodes (NExpr (DictExpr es)) = map NExpr es"
| "iter_child_nodes (NExpr (SetExpr es)) = map NExpr es"
| "iter_child_nodes (NExpr (OtherExpr es)) = map NExpr es"

text \<open>The number of nodes of a tree: the measure of the traversal.\<close>

fun expr_count :: "expr \<Rightarrow> nat" where
  "expr_count (BoolOp vs) = Suc (sum_list (map expr_count vs))"
| "expr_count (Name x) = 1"
| "expr_count (Constant c) = 1"
| "expr_count (Attribute v a) = Suc (expr_count v)"
| "expr_count (Call f as) = Suc (expr_count f + sum_list (map expr_count as))"
| "expr_count (ListExpr es) = Suc (sum_list (map expr_count es))"
| "expr_count (DictExpr es) = Suc (sum_list (map expr_count es))"
| "expr_count (SetExpr es) = Suc (sum_list (map expr_count es))"
| "expr_count (OtherExpr es) = Suc (sum_list (map expr_count es))"

definition exprs_count :: "expr list \<Rightarrow> nat" where
  "exprs_count es = sum_list (map expr_count es)"

fun stmt_count :: "stmt \<Rightarrow> nat"
  and handler_count :: "excepthandler \<Rightarrow> nat" where
  "stmt_count (FunctionDef nm a body decs ret lineno) =
     Suc (exprs_count (arguments_exprs a) + sum_list (map stmt_count body)
          + exprs_count decs + exprs_count (opt ret))"
| "stmt_count (AsyncFunctionDef nm a body decs ret lineno) =
     Suc (exprs_count (arguments_exprs a) + sum_list (map stmt_count body)
          + exprs_count decs + exprs_count (opt ret))"
| "stmt_count (ClassDef nm bases kws body decs) =
     Suc (exprs_count bases + exprs_count kws + sum_list (map stmt_count body) + exprs_count decs)"
| "stmt_count (IfStmt test body orelse) =
     Suc (expr_count test + sum_list (map stmt_count body) + sum_list (map stmt_count orelse))"
| "stmt_count (While test body orelse) =
     Suc (expr_count test + sum_list (map stmt_count body) + sum_list (map stmt_count orelse))"
| "stmt_count (For target iter body orelse) =
     Suc (expr_count target + expr_count iter + sum_list (map stmt_count body)
          + sum_list (map stmt_count orelse))"
| "stmt_count (Try body handlers orelse finalbody) =
     Suc (sum_list (map stmt_count body) + sum_list (map handler_count handlers)
          + sum_list (map stmt_count orelse) + sum_list (map stmt_count finalbody))"
| "stmt_count (TryStar body handlers orelse finalbody) =
     Suc (sum_list (map stmt_count body) + sum_list (map handler_count handlers)
          + sum_list (map stmt_count orelse) + sum_list (map stmt_count finalbody))"
| "stmt_count (With items body) = Suc (exprs_count items + sum_list (map stmt_count body))"
| "stmt_count (Assert test msg) = Suc (expr_count test + exprs_count (opt msg))"
| "stmt_count (Raise exc cause) = Suc (exprs_count (opt exc) + exprs_count (opt cause))"
| "stmt_count (Import names lineno col_offset) = 1"
| "stmt_count (ImportFrom modname names lineno col_offset) = 1"
| "stmt_count (Expr v) = Suc (expr_count v)"
| "stmt_count (OtherStmt es ss) = Suc (exprs_count es + sum_list (map stmt_count ss))"
| "handler_count (ExceptHandler ty body lineno) =
     Suc (exprs_count (opt ty) + sum_list (map stmt_count body))"

fun node_count :: "node \<Rightarrow> nat" where
  "node_count (NModule body) = Suc (sum_list (map stmt_count body))"
| "node_count (NStmt s) = stmt_count s"
| "node_count (NExpr e) = expr_count e"
| "node_count (NHandler h) = handler_count h"

lemma node_count_children:
  "sum_list (map node_count (iter_child_nodes n)) < node_count n"
proof (cases n)
  case (NModule body)
  then show ?thesis by (simp add: comp_def)
next
  case (NStmt s)
  then show ?thesis by (cases s) (simp_all add: comp_def exprs_count_def)
next
  case (NExpr e)
  then show ?thesis by (cases e) (simp_all add: comp_def)
next
  case (NHandler h)
  then show ?thesis by (cases h) (simp add: comp_def exprs_count_def)
qed

text \<open>
  \<open>ast.walk\<close>: the argument is the queue \<open>todo\<close>; a node is taken from the left and its
  children are added on the right.
\<close>

function walk :: "node list \<Rightarrow> node list" where
  "walk [] = []"
| "walk (n # todo) = n # walk (todo @ iter_child_nodes n)"
  by pat_completeness auto
termination
  by (relation "measure (\<lambda>todo. sum_list (map node_count todo))")
     (simp_all add: node_count_children)

section \<open>The Python analyzer (analyzers/python.py)\<close>

record PythonFunction =
  fn_name :: string
  fn_args :: "string list"
  fn_returns :: "string option"
  fn_decorators :: "string list"
  fn_docstring :: "string option"
  fn_is_async :: bool
  fn_complexity :: int

record PythonClass =
  cls_name :: string
  cls_bases :: "string list"
  cls_methods :: "PythonFunction list"
  cls_decorators :: "string list"
  cls_docstring :: "string option"

text \<open>A list comprehension whose element expression may raise: the first exception wins.\<close>

fun map_exn :: "('a \<Rightarrow> exn + 'b) \<Rightarrow> 'a list \<Rightarrow> exn + 'b list" where
  "map_exn f [] = Inr []"
| "map_exn f (x # xs) =
     (case f x of
        Inl e \<Rightarrow> Inl e
      | Inr y \<Rightarrow> (case map_exn f xs of Inl e \<Rightarrow> Inl e | Inr ys \<Rightarrow> Inr (y # ys)))"

text \<open>\<open>str(value)\<close> of a constant.\<close>

fun str_const :: "const_value \<Rightarrow> string" where
  "str_const (CStr s) = s"
| "str_const CNone = ''None''"
| "str_const (CBool b) = (if b then ''True'' else ''False'')"
| "str_const (CInt i) = str_int i"
| "str_const CEllipsis = ''Ellipsis''"
| "str_const (COther s) = s"

text \<open>\<open>_analyze_imports\<close>: \<open>x or y\<close> on strings and on an optional string.\<close>

definition or_else :: "string option \<Rightarrow> string \<Rightarrow> string" where
  "or_else x y = (if truthy x then the x else y)"

fun node_imports :: "node \<Rightarrow> (string \<times> string \<times> FileLocation) list" where
  "node_imports (NStmt (Import names lineno col_offset)) =
     map (\<lambda>nm. (alias_name nm, or_else (asname nm) (alias_name nm),
                 \<lparr>line = lineno, column = col_offset, end_line = None, end_column = None\<rparr>)) names"
| "node_imports (NStmt (ImportFrom modname names lineno col_offset)) =
     (let module = or_else modname [] in
      map (\<lambda>nm. (if module \<noteq> [] then module @ ''.'' @ alias_name nm else alias_name nm,
                  or_else (asname nm) (alias_name nm),
                  \<lparr>line = lineno, column = col_offset, end_line = None, end_column = None\<rparr>)) names)"
| "node_imports n = []"

definition analyze_imports :: "node \<Rightarrow> (string \<times> string \<times> FileLocation) list" where
  "analyze_imports tree = concat (map node_imports (walk [tree]))"

text \<open>\<open>_calculate_complexity\<close>: the loop over \<open>ast.walk(node)\<close>, from the base score 1.\<close>

fun complexity_step :: "int \<Rightarrow> node \<Rightarrow> int" where
  "complexity_step c (NStmt (IfStmt test body orelse)) = c + 1"
| "complexity_step c (NStmt (While test body orelse)) = c + 1"
| "complexity_step c (NStmt (For target iter body orelse)) = c + 1"
| "complexity_step c (NStmt (Try body handlers orelse finalbody)) = c + 1"
| "complexity_step c (NHandler h) = c + 1"
| "complexity_step c (NStmt (With items body)) = c + 1"
| "complexity_step c (NStmt (Assert test msg)) = c + 1"
| "complexity_step c (NStmt (Raise exc cause)) = c + 1"
| "complexity_step c (NExpr (BoolOp vs)) = c + (int (length vs) - 1)"
| "complexity_step c n = c"

definition calculate_complexity :: "node \<Rightarrow> int" where
  "calculate_complexity n = foldl complexity_step 1 (walk [n])"

text \<open>\<open>_get_decorator_name\<close>, \<open>_get_return_annotation\<close>, \<open>_get_base_name\<close>.\<close>

fun get_decorator_name :: "expr \<Rightarrow> exn + string" where
  "get_decorator_name (Name x) = Inr x"
| "get_decorator_name (Call (Name x) as) = Inr x"
| "get_decorator_name (Call (Attribute (Name x) attr) as) = Inr (x @ ''.'' @ attr)"
| "get_decorator_name (Call (Attribute v attr) as) = Inl AttributeError"
| "get_decorator_name e = Inr []"

fun get_return_annotation :: "expr option \<Rightarrow> string option" where
  "get_return_annotation (Some (Name x)) = Some x"
| "get_return_annotation (Some (Constant c)) = Some (str_const c)"
| "get_return_annotation r = None"

fun get_base_name :: "expr \<Rightarrow> exn + string" where
  "get_base_name (Name x) = Inr x"
| "get_base_name (Attribute (Name x) attr) = Inr (x @ ''.'' @ attr)"
| "get_base_name (Attribute v attr) = Inl AttributeError"
| "get_base_name e = Inr []"

text \<open>\<open>ast.get_docstring\<close>; \<open>inspect.cleandoc\<close> is the parameter \<open>cleandoc\<close>.\<close>

fun get_docstring :: "(string \<Rightarrow> string) \<Rightarrow> stmt list \<Rightarrow> string option" where
  "get_docstring cleandoc (Expr (Constant (CStr text)) # rest) = Some (cleandoc text)"
| "get_docstring cleandoc body = None"

text \<open>
  The \<open>PythonFunction\<close> of a \<open>FunctionDef\<close> or \<open>AsyncFunctionDef\<close> node, \<open>None\<close> for a node
  of another class. The source builds it in \<open>_analyze_functions\<close> and, by the same
  statements, for the methods in \<open>_analyze_classes\<close>.
\<close>

fun python_function :: "(string \<Rightarrow> string) \<Rightarrow> stmt \<Rightarrow> (exn + PythonFunction) option" where
  "python_function cleandoc (FunctionDef nm a body decs ret lineno) =
     Some (case map_exn get_decorator_name decs of
             Inl e \<Rightarrow> Inl e
           | Inr ds \<Rightarrow>
               Inr \<lparr>fn_name = nm, fn_args = map arg_name (args a),
                    fn_returns = get_return_annotation ret, fn_decorators = ds,
                    fn_docstring = get_docstring cleandoc body, fn_is_async = False,
                    fn_complexity =
                      calculate_complexity (NStmt (FunctionDef nm a body decs ret lineno))\<rparr>)"
| "python_function cleandoc (AsyncFunctionDef nm a body decs ret lineno) =
     Some (case map_exn get_decorator_name decs of
             Inl e \<Rightarrow> Inl e
           | Inr ds \<Rightarrow>
               Inr \<lparr>fn_name = nm, fn_args = map arg_name (args a),
                    fn_returns = get_return_annotation ret, fn_decorators = ds,
                    fn_docstring = get_docstring cleandoc body, fn_is_async = True,
                    fn_complexity =
                      calculate_complexity (NStmt (AsyncFunctionDef nm a body decs ret lineno))\<rparr>)"
| "python_function cleandoc s = None"

fun node_function :: "(string \<Rightarrow> string) \<Rightarrow> node \<Rightarrow> (exn + PythonFunction) option" where
  "node_function cleandoc (NStmt s) = python_function cleandoc s"
| "node_function cleandoc n = None"

definition analyze_functions :: "(string \<Rightarrow> string) \<Rightarrow> node \<Rightarrow> exn + PythonFunction list" where
  "analyze_functions cleandoc tree =
     map_exn id (List.map_filter (node_function cleandoc) (walk [tree]))"

fun node_class :: "(string \<Rightarrow> string) \<Rightarrow> node \<Rightarrow> (exn + PythonClass) option" where
  "node_class cleandoc (NStmt (ClassDef nm bases kws body decs)) =
     Some (case map_exn get_base_name bases of
             Inl e \<Rightarrow> Inl e
           | Inr bs \<Rightarrow>
               (case map_exn id (List.map_filter (python_function cleandoc) body) of
                  Inl e \<Rightarrow> Inl e
                | Inr ms \<Rightarrow>
                    (case map_exn get_decorator_name decs of
                       Inl e \<Rightarrow> Inl e
                     | Inr ds \<Rightarrow>
                         Inr \<lparr>cls_name = nm, cls_bases = bs, cls_methods = ms,
                              cls_decorators = ds,
                              cls_docstring = get_docstring cleandoc body\<rparr>)))"
| "node_class cleandoc n = None"

definition analyze_classes :: "(string \<Rightarrow> string) \<Rightarrow> node \<Rightarrow> exn + PythonClass list" where
  "analyze_classes cleandoc tree =
     map_exn id (List.map_filter (node_class cleandoc) (walk [tree]))"

text \<open>
  \<open>_extract_block_content\<close>: the first line that contains \<open>def name\<close> or \<open>class name\<close>, and
  the lines after it up to the first non-blank line indented no deeper. The string
  operations of its \<open>try\<close> block raise nothing.
\<close>

fun extract_block_content :: "string list \<Rightarrow> string \<Rightarrow> string option" where
  "extract_block_content [] nm = None"
| "extract_block_content (l # rest) nm =
     (if str_in (''def '' @ nm) l \<or> str_in (''class '' @ nm) l then
        (let indent = int (length l) - int (length (lstrip l)) in
         Some (join [CHR 0x0A]
                 (l # takeWhile
                        (\<lambda>next_line.
                           \<not> (strip next_line \<noteq> []
                              \<and> int (length next_line) - int (length (lstrip next_line)) \<le> indent))
                        rest)))
      else extract_block_content rest nm)"

definition named_blocks :: "string list \<Rightarrow> string \<Rightarrow> string list \<Rightarrow> CodeBlock list" where
  "named_blocks lines kind names =
     List.map_filter
       (\<lambda>nm. let block_content = extract_block_content lines nm in
             if truthy block_content then
               Some \<lparr>content = the block_content,
                     location = \<lparr>line = 0, column = 0, end_line = None, end_column = None\<rparr>,
                     block_type = kind\<rparr>
             else None)
       names"

definition create_code_blocks ::
  "string \<Rightarrow> PythonFunction list \<Rightarrow> PythonClass list \<Rightarrow> CodeBlock list" where
  "create_code_blocks text functions classes =
     (let lines = splitlines text in
      named_blocks lines ''function'' (map fn_name functions)
      @ named_blocks lines ''class'' (map cls_name classes))"

text \<open>\<open>BaseAnalyzer.collect_metrics\<close> and \<open>dict.update\<close>.\<close>

definition collect_metrics :: "string \<Rightarrow> CodeBlock list \<Rightarrow> (string \<times> metric) list" where
  "collect_metrics text bs =
     (let lines = splitlines text in
      [(''total_lines'', MInt (int (length lines))),
       (''code_lines'', MInt (int (length (filter (\<lambda>l. strip l \<noteq> []) lines)))),
       (''comment_lines'', MInt (int (length (filter (\<lambda>l. startswith (strip l) ''#'') lines)))),
       (''empty_lines'', MInt (int (length (filter (\<lambda>l. strip l = []) lines)))),
       (''blocks'', MInt (int (length bs))),
       (''avg_block_size'',
          if bs \<noteq> [] then
            MFloat (sum_list (map (\<lambda>b. int (length (splitlines (content b)))) bs)) (int (length bs))
          else MInt 0)])"

definition dict_update :: "('k \<times> 'v) list \<Rightarrow> ('k \<times> 'v) list \<Rightarrow> ('k \<times> 'v) list" where
  "dict_update d kvs = foldl (\<lambda>d (k, v). AList.update k v d) d kvs"

text \<open>\<open>_collect_python_metrics\<close>: the base metrics are those of the call \<open>collect_metrics("", [])\<close>.\<close>

definition collect_python_metrics ::
  "node \<Rightarrow> PythonFunction list \<Rightarrow> PythonClass list \<Rightarrow> (string \<times> metric) list" where
  "collect_python_metrics tree functions classes =
     dict_update (collect_metrics [] [])
       [(''num_functions'', MInt (int (length functions))),
        (''num_classes'', MInt (int (length classes))),
        (''num_methods'', MInt (sum_list (map (\<lambda>c. int (length (cls_methods c))) classes))),
        (''avg_function_complexity'',
           if functions \<noteq> [] then
             MFloat (sum_list (map fn_complexity functions)) (int (length functions))
           else MInt 0),
        (''documented_items'',
           MInt (int (length (filter (\<lambda>f. truthy (fn_docstring f)) functions))
                 + int (length (filter (\<lambda>c. truthy (cls_docstring c)) classes)))),
        (''async_functions'', MInt (int (length (filter fn_is_async functions))))]"

text \<open>\<open>_build_dependencies\<close>.\<close>

definition build_dependencies :: "(string \<times> string \<times> FileLocation) list \<Rightarrow> Dependency list" where
  "build_dependencies imports =
     map (\<lambda>(imp_name, alias, loc).
            let local = (CHR ''.'' \<in> set imp_name
                         \<and> \<not> list_ex (startswith imp_name) [''django'', ''flask'', ''fastapi''])
            in \<lparr>name = imp_name, version = None, is_local = local,
                import_path =
                  (if local then Some (replace_char CHR ''.'' CHR ''/'' imp_name @ ''.py'') else None),
                used_in = Some [loc]\<rparr>)
         imports"

text \<open>\<open>_collect_warnings\<close>.\<close>

fun is_mutable_literal :: "expr \<Rightarrow> bool" where
  "is_mutable_literal (ListExpr es) = True"
| "is_mutable_literal (DictExpr es) = True"
| "is_mutable_literal (SetExpr es) = True"
| "is_mutable_literal e = False"

fun node_warnings :: "node \<Rightarrow> string list" where
  "node_warnings (NHandler (ExceptHandler ty body lineno)) =
     (if ty = None \<or> ty = Some (Name ''Exception'')
      then [''Broad exception handler at line '' @ str_int lineno] else [])"
| "node_warnings (NStmt (FunctionDef nm a body decs ret lineno)) =
     map (\<lambda>d. ''Mutable default argument in function '' @ nm @ '' at line '' @ str_int lineno)
         (filter is_mutable_literal (defaults a))"
| "node_warnings n = []"

definition collect_warnings :: "node \<Rightarrow> string list" where
  "collect_warnings tree = concat (map node_warnings (walk [tree]))"

text \<open>
  \<open>PythonAnalyzer.analyze_file\<close>. \<open>ast.parse\<close> is the parameter \<open>parse\<close>: on a text it returns
  the body of the \<open>Module\<close>, or \<open>Inl msg\<close> when it raises a SyntaxError \<open>e\<close> with
  \<open>str(e) = msg\<close>. (What else \<open>ast.parse\<close> may raise, a RecursionError on a deeply nested
  text for one, is not modelled.)
\<close>

definition PythonAnalyzer_analyze_file ::
  "(string \<Rightarrow> string + stmt list) \<Rightarrow> (string \<Rightarrow> string) \<Rightarrow> filesystem \<Rightarrow> analyzer \<Rightarrow> string
     \<Rightarrow> (exn + AnalysisResult) \<times> analyzer" where
  "PythonAnalyzer_analyze_file parse cleandoc fs s fp =
     (case read_file fs s fp of
        (Inl e, s1) \<Rightarrow> (Inl e, s1)
      | (Inr text, s1) \<Rightarrow>
          if \<not> truthy text then (Inl (ValueError (''Could not read file: '' @ fp)), s1)
          else
            (case parse (the text) of
               Inl msg \<Rightarrow>
                 (Inr \<lparr>result_file_path = fp, language = PYTHON, blocks = [], dependencies = [],
                       errors = [''Syntax error: '' @ msg], warnings = [], metrics = []\<rparr>, s1)
             | Inr body \<Rightarrow>
                 (let tree = NModule body;
                      imports = analyze_imports tree
                  in case analyze_functions cleandoc tree of
                       Inl e \<Rightarrow> (Inl e, s1)
                     | Inr functions \<Rightarrow>
                         (case analyze_classes cleandoc tree of
                            Inl e \<Rightarrow> (Inl e, s1)
                          | Inr classes \<Rightarrow>
                              (Inr \<lparr>result_file_path = fp, language = PYTHON,
                                    blocks = create_code_blocks (the text) functions classes,
                                    dependencies = build_dependencies imports,
                                    errors = [],
                                    warnings = collect_warnings tree,
                                    metrics = collect_python_metrics tree functions classes\<rparr>,
                               s1)))))"

section \<open>The web result types (types/web.py)\<close>

text \<open>
  Creating a class under the decorator \<open>@dataclass\<close> raises \<open>TypeError\<close> when a field
  without a default follows a field with one (the generated \<open>__init__\<close> would have a
  non-default argument after a default argument). A field is its name and whether it is
  declared with a default; \<open>seen\<close> says that a field with a default came before.
\<close>

fun dataclass_fields :: "bool \<Rightarrow> (string \<times> bool) list \<Rightarrow> exn + unit" where
  "dataclass_fields seen [] = Inr ()"
| "dataclass_fields seen ((nm, has_default) # rest) =
     (if seen \<and> \<not> has_default then Inl TypeError
      else dataclass_fields (seen \<or> has_default) rest)"

definition dataclass :: "(string \<times> bool) list \<Rightarrow> exn + unit" where
  "dataclass flds = dataclass_fields False flds"

text \<open>
  A module body creates its classes in the order of the text; the first exception ends
  the import.
\<close>

fun create_classes :: "(string \<times> bool) list list \<Rightarrow> exn + unit" where
  "create_classes [] = Inr ()"
| "create_classes (c # cs) =
     (case dataclass c of Inl e \<Rightarrow> Inl e | Inr u \<Rightarrow> create_classes cs)"

text \<open>The dataclasses of types/common.py, in the order of the text.\<close>

definition FileLocation_fields :: "(string \<times> bool) list" where
  "FileLocation_fields =
     [(''line'', False), (''column'', False), (''end_line'', True), (''end_column'', True)]"

definition CodeBlock_fields :: "(string \<times> bool) list" where
  "CodeBlock_fields = [(''content'', False), (''location'', False), (''block_type'', False)]"

definition Dependency_fields :: "(string \<times> bool) list" where
  "Dependency_fields =
     [(''name'', False), (''version'', True), (''is_local'', True), (''import_path'', True),
      (''used_in'', True)]"

definition AnalysisResult_fields :: "(string \<times> bool) list" where
  "AnalysisResult_fields =
     [(''file_path'', False), (''language'', False), (''blocks'', False),
      (''dependencies'', False), (''errors'', False), (''warnings'', False),
      (''metrics'', False)]"

definition AnalysisOptions_fields :: "(string \<times> bool) list" where
  "AnalysisOptions_fields =
     [(''max_file_size'', True), (''ignore_patterns'', True), (''analysis_types'', True),
      (''include_metrics'', True), (''include_documentation'', True), (''max_depth'', True)]"

definition import_types_common :: "exn + unit" where
  "import_types_common =
     create_classes [FileLocation_fields, CodeBlock_fields, Dependency_fields,
                     AnalysisResult_fields, AnalysisOptions_fields]"

text \<open>
  The dataclasses of types/web.py, in the order of the text. \<open>TypeScriptType\<close> declares
  \<open>code_block\<close>, without a default, after \<open>is_interface\<close>, \<open>extends\<close> and \<open>implements\<close>,
  which have one. \<open>WebAnalysisResult\<close> inherits the fields of \<open>AnalysisResult\<close>. The module
  imports types/common.py first.
\<close>

definition ReactComponent_fields :: "(string \<times> bool) list" where
  "ReactComponent_fields =
     [(''name'', False), (''component_type'', False), (''props'', False), (''state'', False),
      (''hooks'', False), (''jsx_elements'', False), (''code_block'', False)]"

definition ReactHook_fields :: "(string \<times> bool) list" where
  "ReactHook_fields =
     [(''name'', False), (''dependencies'', False), (''effect_type'', False),
      (''code_block'', False)]"

definition TypeScriptType_fields :: "(string \<times> bool) list" where
  "TypeScriptType_fields =
     [(''name'', False), (''definition'', False), (''is_interface'', True),
      (''extends'', True), (''implements'', True), (''code_block'', False)]"

definition WebAnalysisResult_fields :: "(string \<times> bool) list" where
  "WebAnalysisResult_fields =
     AnalysisResult_fields @
     [(''framework'', False), (''components'', False), (''hooks'', False), (''types'', False),
      (''styles'', False), (''imports'', False)]"

definition import_types_web :: "exn + unit" where
  "import_types_web =
     (case import_types_common of
        Inl e \<Rightarrow> Inl e
      | Inr u \<Rightarrow>
          create_classes [ReactComponent_fields, ReactHook_fields, TypeScriptType_fields,
                          WebAnalysisResult_fields])"

text \<open>The classes as records, field by field.\<close>

datatype ReactComponentType = FUNCTIONAL | CLASS | HOOK | HOC | PURE

datatype ImportType = DEFAULT | NAMED | NAMESPACE | DYNAMIC

record ReactComponent =
  component_name :: string
  component_type :: ReactComponentType
  props :: "(string \<times> string) list list"
  state :: "(string \<times> string) list list option"
  component_hooks :: "string list"
  jsx_elements :: "string list"
  component_code_block :: CodeBlock

record ReactHook =
  hook_name :: string
  hook_dependencies :: "string list"
  effect_type :: "string option"
  hook_code_block :: CodeBlock

record TypeScriptType =
  type_name :: string
  type_definition :: string
  is_interface :: bool
  extends :: "string list option"
  implements :: "string list option"
  type_code_block :: CodeBlock

record WebAnalysisResult = AnalysisResult +
  framework :: string
  components :: "ReactComponent list"
  hooks :: "ReactHook list"
  types :: "TypeScriptType list"
  styles :: "(string \<times> string) list"
  result_imports :: "(string \<times> ImportType) list"

text \<open>
  \<open>WebAnalysisResult.__init__(file_path, **kwargs)\<close>: the fields of the base class are set
  to their fixed values, then every keyword argument is stored under its name. The one
  call, in \<open>ReactAnalyzer.analyze_file\<close>, passes \<open>framework\<close>, \<open>components\<close>, \<open>hooks\<close>,
  \<open>types\<close>, \<open>styles\<close> and \<open>imports\<close> (the field \<open>result_imports\<close> here).
\<close>

definition WebAnalysisResult_init ::
  "string \<Rightarrow> string \<Rightarrow> ReactComponent list \<Rightarrow> ReactHook list \<Rightarrow> TypeScriptType list
     \<Rightarrow> (string \<times> string) list \<Rightarrow> (string \<times> ImportType) list \<Rightarrow> WebAnalysisResult" where
  "WebAnalysisResult_init fp fw cs hs ts st im =
     \<lparr>result_file_path = fp, language = REACT, blocks = [], dependencies = [], errors = [],
      warnings = [], metrics = [],
      framework = fw, components = cs, hooks = hs, types = ts, styles = st,
      result_imports = im\<rparr>"

section \<open>The React analyzer (analyzers/web/react.py)\<close>

record JSImport =
  import_module :: string
  items :: "string list"
  import_type :: ImportType
  import_location :: FileLocation

text \<open>
  The methods that extract with regular expressions (module \<open>re\<close>) are parameters:
  \<open>_analyze_imports\<close> and \<open>_analyze_styles\<close>, which raise nothing, and \<open>_analyze_components\<close>,
  \<open>_analyze_hooks\<close> and \<open>_analyze_types\<close>, which may raise (\<open>_find_closing_brace\<close> pops
  an empty list on an unmatched closing brace).
\<close>

record react_methods =
  react_analyze_imports :: "string \<Rightarrow> JSImport list"
  react_analyze_components :: "string \<Rightarrow> exn + ReactComponent list"
  react_analyze_hooks :: "string \<Rightarrow> exn + ReactHook list"
  react_analyze_types :: "string \<Rightarrow> exn + TypeScriptType list"
  react_analyze_styles :: "string \<Rightarrow> (string \<times> string) list"

text \<open>\<open>Path.suffix\<close>: the last dot and what follows it in the final path component.\<close>

definition path_suffix :: "string \<Rightarrow> string" where
  "path_suffix p =
     (let nm = rev (takeWhile (\<lambda>c. c \<noteq> CHR ''/'') (rev p));
          ext = rev (takeWhile (\<lambda>c. c \<noteq> CHR ''.'') (rev nm))
      in if CHR ''.'' \<in> set nm \<and> length ext + 1 < length nm \<and> ext \<noteq> []
         then CHR ''.'' # ext else [])"

text \<open>\<open>ReactAnalyzer._create_code_blocks\<close>, \<open>_build_dependencies\<close>, \<open>_categorize_imports\<close>.\<close>

definition react_create_code_blocks :: "ReactComponent list \<Rightarrow> ReactHook list \<Rightarrow> CodeBlock list" where
  "react_create_code_blocks cs hs = map component_code_block cs @ map hook_code_block hs"

definition react_build_dependencies :: "JSImport list \<Rightarrow> Dependency list" where
  "react_build_dependencies imps =
     map (\<lambda>imp.
            let local = (startswith (import_module imp) ''.'' \<or> startswith (import_module imp) ''/'')
            in \<lparr>name = import_module imp, version = None, is_local = local,
                import_path = (if local then Some (import_module imp) else None),
                used_in = Some [import_location imp]\<rparr>)
         imps"

definition categorize_imports :: "JSImport list \<Rightarrow> (string \<times> ImportType) list" where
  "categorize_imports imps =
     foldl (\<lambda>categorized imp.
              foldl (\<lambda>d item. AList.update item (import_type imp) d) categorized (items imp))
           [] imps"

text \<open>\<open>_collect_react_metrics\<close>: the base metrics are those of \<open>collect_metrics("", [])\<close>.\<close>

definition collect_react_metrics ::
  "string \<Rightarrow> ReactComponent list \<Rightarrow> ReactHook list \<Rightarrow> TypeScriptType list
     \<Rightarrow> (string \<times> metric) list" where
  "collect_react_metrics text cs hs ts =
     dict_update (collect_metrics [] [])
       [(''num_components'', MInt (int (length cs))),
        (''num_hooks'', MInt (int (length hs))),
        (''num_types'', MInt (int (length ts))),
        (''functional_components'',
           MInt (int (length (filter (\<lambda>c. component_type c = FUNCTIONAL) cs)))),
        (''class_components'', MInt (int (length (filter (\<lambda>c. component_type c = CLASS) cs)))),
        (''avg_props_per_component'',
           if cs \<noteq> [] then
             MFloat (sum_list (map (\<lambda>c. int (length (props c))) cs)) (int (length cs))
           else MInt 0),
        (''components_with_hooks'',
           MInt (int (length (filter (\<lambda>c. component_hooks c \<noteq> []) cs))))]"

text \<open>
  The method \<open>ReactAnalyzer.analyze_file\<close> as it is written (lines 49 to 81). The blocks,
  the dependencies and the metrics are computed and are not passed to the constructor of
  the result.
\<close>

definition ReactAnalyzer_analyze_file_method ::
  "react_methods \<Rightarrow> filesystem \<Rightarrow> analyzer \<Rightarrow> string \<Rightarrow> (exn + WebAnalysisResult) \<times> analyzer" where
  "ReactAnalyzer_analyze_file_method rx fs s fp =
     (case read_file fs s fp of
        (Inl e, s1) \<Rightarrow> (Inl e, s1)
      | (Inr text, s1) \<Rightarrow>
          if \<not> truthy text then (Inl (ValueError (''Could not read file: '' @ fp)), s1)
          else
            (let imps = react_analyze_imports rx (the text) in
             case react_analyze_components rx (the text) of
               Inl e \<Rightarrow> (Inl e, s1)
             | Inr cs \<Rightarrow>
                 (case react_analyze_hooks rx (the text) of
                    Inl e \<Rightarrow> (Inl e, s1)
                  | Inr hs \<Rightarrow>
                      (case (if path_suffix fp \<in> {''.tsx'', ''.ts''}
                             then react_analyze_types rx (the text) else Inr []) of
                         Inl e \<Rightarrow> (Inl e, s1)
                       | Inr ts \<Rightarrow>
                           (let blocks = react_create_code_blocks cs hs;
                                dependencies = react_build_dependencies imps;
                                styles = react_analyze_styles rx (the text);
                                metrics = collect_react_metrics (the text) cs hs ts
                            in (Inr (WebAnalysisResult_init fp ''react'' cs hs ts styles
                                       (categorize_imports imps)),
                                s1))))))"

text \<open>
  A call of \<open>ReactAnalyzer.analyze_file\<close> in the program. The module
  analyzers/web/react.py imports the classes of types/web.py at its head (lines 16 to
  23), so the class \<open>ReactAnalyzer\<close> exists, and its method runs, only when that import
  has succeeded; an exception of the import is what the caller gets instead, with the
  analyzer untouched.
\<close>

definition ReactAnalyzer_analyze_file ::
  "react_methods \<Rightarrow> filesystem \<Rightarrow> analyzer \<Rightarrow> string \<Rightarrow> (exn + WebAnalysisResult) \<times> analyzer" where
  "ReactAnalyzer_analyze_file rx fs s fp =
     (case import_types_web of
        Inl e \<Rightarrow> (Inl e, s)
      | Inr u \<Rightarrow> ReactAnalyzer_analyze_file_method rx fs s fp)"

text \<open>
  The constructs that the complexity score counts, as classes of nodes: an \<open>if\<close>, a \<open>try\<close>,
  a handler, and the other counted ones (\<open>while\<close>, \<open>for\<close>, \<open>with\<close>, \<open>assert\<close>, \<open>raise\<close>, a
  boolean operation). \<open>mutable_defaults\<close> are the list, dict and set literals among the
  defaults of a \<open>FunctionDef\<close>.
\<close>

fun is_if :: "node \<Rightarrow> bool" where
  "is_if (NStmt (IfStmt test body orelse)) = True"
| "is_if n = False"

fun is_try :: "node \<Rightarrow> bool" where
  "is_try (NStmt (Try body handlers orelse finalbody)) = True"
| "is_try n = False"

fun is_handler :: "node \<Rightarrow> bool" where
  "is_handler (NHandler h) = True"
| "is_handler n = False"

fun other_counted :: "node \<Rightarrow> bool" where
  "other_counted (NStmt (While test body orelse)) = True"
| "other_counted (NStmt (For target iter body orelse)) = True"
| "other_counted (NStmt (With withitems body)) = True"
| "other_counted (NStmt (Assert test msg)) = True"
| "other_counted (NStmt (Raise exc cause)) = True"
| "other_counted (NExpr (BoolOp vs)) = True"
| "other_counted n = False"

fun mutable_defaults :: "node \<Rightarrow> expr list" where
  "mutable_defaults (NStmt (FunctionDef nm a body decs ret lineno)) =
     filter is_mutable_literal (defaults a)"
| "mutable_defaults n = []"



section \<open>Example inputs\<close>

text \<open>
  A workspace \<open>/ws\<close>. \<open>example_parse\<close> is \<open>ast.parse\<close> on the texts of its files:
  \<open>bad.py\<close> does not parse, \<open>m.py\<close> is one assignment, \<open>f.py\<close> is the function
  \<^verbatim>\<open>
  def process(x):
      if x:
          y = 1
      try:
          y = 2
      except Exception:
          y = 3
      return y
  \<close>
  and in the package \<open>pkg\<close>, \<open>a.py\<close> imports \<open>pkg.b\<close>, \<open>b.py\<close> imports \<open>pkg.c\<close>,
  \<open>c.py\<close> is one assignment, and \<open>p.py\<close> and \<open>q.py\<close> import each other; \<open>p.py\<close> also
  imports \<open>pkg.c\<close> and \<open>os\<close>. \<open>App.tsx\<close> imports \<open>./Button.tsx\<close>.
\<close>

definition no_arguments :: arguments where
  "no_arguments =
     \<lparr>posonlyargs = [], args = [], vararg = None, kwonlyargs = [], kw_defaults = [],
      kwarg = None, defaults = []\<rparr>"

definition example_function :: stmt where
  "example_function =
     FunctionDef ''process''
       (no_arguments\<lparr>args := [\<lparr>arg_name = ''x'', annotation = None\<rparr>]\<rparr>)
       [IfStmt (Name ''x'') [OtherStmt [Name ''y'', Constant (CInt 1)] []] [],
        Try [OtherStmt [Name ''y'', Constant (CInt 2)] []]
            [ExceptHandler (Some (Name ''Exception''))
               [OtherStmt [Name ''y'', Constant (CInt 3)] []] 6]
            [] [],
        OtherStmt [Name ''y''] []]
       [] None 1"

definition example_function_text :: string where
  "example_function_text =
     ''def process(x):'' @ [CHR 0x0A] @
     ''    if x:'' @ [CHR 0x0A] @
     ''        y = 1'' @ [CHR 0x0A] @
     ''    try:'' @ [CHR 0x0A] @
     ''        y = 2'' @ [CHR 0x0A] @
     ''    except Exception:'' @ [CHR 0x0A] @
     ''        y = 3'' @ [CHR 0x0A] @
     ''    return y'' @ [CHR 0x0A]"

definition example_app_text :: string where
  "example_app_text =
     ''import Button from '' @ [CHR 0x27] @ ''./Button.tsx'' @ [CHR 0x27] @ '';'' @ [CHR 0x0A]"

definition example_import :: "string \<Rightarrow> stmt list" where
  "example_import m = [Import [\<lparr>alias_name = m, asname = None\<rparr>] 1 0]"

definition example_p_text :: string where
  "example_p_text =
     ''import pkg.q'' @ [CHR 0x0A] @ ''import pkg.c'' @ [CHR 0x0A] @ ''import os'' @ [CHR 0x0A]"

definition example_p_tree :: "stmt list" where
  "example_p_tree =
     [Import [\<lparr>alias_name = ''pkg.q'', asname = None\<rparr>] 1 0,
      Import [\<lparr>alias_name = ''pkg.c'', asname = None\<rparr>] 2 0,
      Import [\<lparr>alias_name = ''os'', asname = None\<rparr>] 3 0]"

definition example_texts :: "(string \<times> string \<times> (string + stmt list)) list" where
  "example_texts =
     [(''/ws/bad.py'', ''def f(:'' @ [CHR 0x0A], Inl ''invalid syntax (<unknown>, line 1)''),
      (''/ws/m.py'', ''x = 1'' @ [CHR 0x0A], Inr [OtherStmt [Name ''x'', Constant (CInt 1)] []]),
      (''/ws/f.py'', example_function_text, Inr [example_function]),
      (''/ws/pkg/a.py'', ''import pkg.b'' @ [CHR 0x0A], Inr (example_import ''pkg.b'')),
      (''/ws/pkg/b.py'', ''import pkg.c'' @ [CHR 0x0A], Inr (example_import ''pkg.c'')),
      (''/ws/pkg/c.py'', ''z = 1'' @ [CHR 0x0A], Inr [OtherStmt [Name ''z'', Constant (CInt 1)] []]),
      (''/ws/pkg/p.py'', example_p_text, Inr example_p_tree),
      (''/ws/pkg/q.py'', ''import pkg.p'' @ [CHR 0x0A], Inr (example_import ''pkg.p'')),
      (''/ws/empty.py'', [], Inr []),
      (''/ws/App.tsx'', example_app_text, Inl ''invalid syntax (<unknown>, line 1)''),
      (''/ws/Button.tsx'', ''export default 1;'' @ [CHR 0x0A],
         Inl ''invalid syntax (<unknown>, line 1)''),
      (''/ws/empty.tsx'', [], Inr [])]"

definition example_parse :: "string \<Rightarrow> string + stmt list" where
  "example_parse text =
     (case map_of (map snd example_texts) text of
        Some r \<Rightarrow> r
      | None \<Rightarrow> Inl ''invalid syntax'')"

definition example_fs :: filesystem where
  "example_fs =
     \<lparr>files = map_of (map (\<lambda>(p, text, r). (p, \<lparr>st_size = length text, read_text = Inr text\<rparr>))
                       example_texts),
      resolve = (\<lambda>ws p. ws @ ''/'' @ (if prefix ''./'' p then drop 2 p else p))\<rparr>"

definition example_analyzer :: analyzer where
  "example_analyzer = BaseAnalyzer_init ''/ws''"

text \<open>
  Extraction methods of the React analyzer that find the import of \<open>App.tsx\<close> and nothing
  else.
\<close>

definition example_react_methods :: react_methods where
  "example_react_methods =
     \<lparr>react_analyze_imports =
        (\<lambda>text. if text = example_app_text
                then [\<lparr>import_module = ''./Button.tsx'', items = [''Button''],
                       import_type = DEFAULT,
                       import_location =
                         \<lparr>line = 0, column = 0, end_line = None, end_column = None\<rparr>\<rparr>]
                else []),
      react_analyze_components = (\<lambda>text. Inr []),
      react_analyze_hooks = (\<lambda>text. Inr []), react_analyze_types = (\<lambda>text. Inr []),
      react_analyze_styles = (\<lambda>text. [])\<rparr>"





section \<open>Properties of the cache\<close>

lemma find_append_None: "find P xs = None \<Longrightarrow> find P (xs @ ys) = find P ys"
  by (induction xs) (auto split: if_splits)

lemma find_insert_or_replace:
  "find (\<lambda>r. file_path r = file_path new \<and> content_hash r = content_hash new)
     (insert_or_replace new db) = Some new"
proof -
  have "find (\<lambda>r. file_path r = file_path new \<and> content_hash r = content_hash new)
          (filter (\<lambda>r. file_path r \<noteq> file_path new) db) = None"
    by (simp add: find_None_iff)
  then show ?thesis
    by (simp add: insert_or_replace_def find_append_None)
qed

text \<open>
  C4. With the cache enabled and a JSON-serializable value \<open>r\<close> (\<open>dumps r = Some s\<close>),
  \<open>set(p, h, r)\<close> at time \<open>now\<close> followed by \<open>get(p, h)\<close> at time \<open>now'\<close>, within the TTL of the
  stored timestamp, returns \<open>loads s\<close>: the value \<open>r\<close> after its JSON round trip. The
  eviction inside \<open>set\<close> runs before the insert, so it never removes the new row.
\<close>

theorem cache_round_trip:
  assumes "enabled cfg"
    and "dumps r = Some s"
    and "now' - of_int \<lfloor>now\<rfloor> \<le> of_int (ttl cfg * 60)"
  shows "AnalysisCache_get cfg loads now'
           (snd (AnalysisCache_set cfg dumps now db p h r)) p h = Some (loads s)"
proof -
  let ?new = "\<lparr>file_path = p, content_hash = h, analysis_data = s,
               timestamp = \<lfloor>now\<rfloor>, file_size = length s\<rparr>"
  have db: "snd (AnalysisCache_set cfg dumps now db p h r)
              = insert_or_replace ?new (cleanup_if_needed cfg db)"
    using assms(1,2) by (simp add: AnalysisCache_set_def Let_def)
  have "find (\<lambda>r. file_path r = p \<and> content_hash r = h)
          (insert_or_replace ?new (cleanup_if_needed cfg db)) = Some ?new"
    using find_insert_or_replace [of ?new "cleanup_if_needed cfg db"] by simp
  then show ?thesis
    using assms(1,3) by (simp add: AnalysisCache_get_def db)
qed

theorem cache_round_trip_witness:
  "enabled \<lparr>enabled = True, ttl = 60, max_size = 100\<rparr>
   \<and> Some ''{}'' = Some ''{}''
   \<and> (1005 :: rat) - of_int \<lfloor>1000 :: rat\<rfloor>
       \<le> of_int (ttl \<lparr>enabled = True, ttl = 60, max_size = 100\<rparr> * 60)
   \<and> AnalysisCache_get \<lparr>enabled = True, ttl = 60, max_size = 100\<rparr> (\<lambda>s. s) 1005
        (snd (AnalysisCache_set \<lparr>enabled = True, ttl = 60, max_size = 100\<rparr> Some 1000 []
                ''a.py'' ''h1'' ''{}'')) ''a.py'' ''h1'' = Some ''{}''"
  using cache_round_trip [of "\<lparr>enabled = True, ttl = 60, max_size = 100\<rparr>" Some "''{}''" "''{}''"
      1005 1000 "\<lambda>s. s" "[]" "''a.py''" "''h1''"]
  by simp

lemma filter_take_keys:
  assumes "distinct (map f xs)"
  shows "filter (\<lambda>r. f r \<notin> set (take n (map f xs))) xs = drop n xs"
proof -
  have split: "xs = take n xs @ drop n xs" by simp
  have d: "distinct (map f (take n xs) @ map f (drop n xs))"
    using assms by (metis append_take_drop_id map_append)
  have a: "filter (\<lambda>r. f r \<notin> set (map f (take n xs))) (take n xs) = []"
    by (simp add: filter_empty_conv)
  have b: "filter (\<lambda>r. f r \<notin> set (map f (take n xs))) (drop n xs) = drop n xs"
    using d by (auto simp: filter_id_conv)
  have "filter (\<lambda>r. f r \<notin> set (map f (take n xs))) (take n xs @ drop n xs) = drop n xs"
    using a b by (simp del: append_take_drop_id)
  then show ?thesis by (simp add: take_map)
qed

lemma distinct_map_sort_key:
  "distinct (map f (sort_key k xs)) = distinct (map f xs)"
proof -
  have "mset (map f (sort_key k xs)) = mset (map f xs)" by simp
  then show ?thesis by (rule mset_eq_imp_distinct_iff)
qed

lemma length_filter_sort_key:
  "length (filter P (sort_key k xs)) = length (filter P xs)"
proof -
  have "mset (filter P (sort_key k xs)) = mset (filter P xs)" by simp
  then show ?thesis by (rule mset_eq_length)
qed

lemma length_evict:
  assumes "primary_key db"
  shows "length (filter (\<lambda>r. file_path r \<notin> set (take n (map file_path (sort_key timestamp db)))) db)
           = length db - min n (length db)"
proof -
  let ?xs = "sort_key timestamp db"
  have "distinct (map file_path ?xs)"
    using assms by (simp add: primary_key_def distinct_map_sort_key)
  then have "filter (\<lambda>r. file_path r \<notin> set (take n (map file_path ?xs))) ?xs = drop n ?xs"
    by (rule filter_take_keys)
  then have "length (filter (\<lambda>r. file_path r \<notin> set (take n (map file_path ?xs))) ?xs) = length db - n"
    by simp
  then show ?thesis
    by (simp add: length_filter_sort_key)
qed

lemma oldest_first:
  assumes pk: "primary_key db"
    and d: "d \<in> set db" "file_path d \<in> set (take n (map file_path (sort_key timestamp db)))"
    and k: "k \<in> set db" "file_path k \<notin> set (take n (map file_path (sort_key timestamp db)))"
  shows "timestamp d \<le> timestamp k"
proof -
  let ?xs = "sort_key timestamp db"
  have inj: "inj_on file_path (set db)"
    using pk by (simp add: primary_key_def distinct_map)
  from d(2) obtain d' where d': "d' \<in> set (take n ?xs)" "file_path d' = file_path d"
    by (auto simp: take_map)
  from d'(1) have "d' \<in> set db" by (metis in_set_takeD set_sort)
  with inj d(1) d'(2) have "d' = d" by (auto dest: inj_onD)
  with d'(1) have dt: "d \<in> set (take n ?xs)" by simp
  have "k \<in> set ?xs" using k(1) by simp
  then have "k \<in> set (take n ?xs) \<or> k \<in> set (drop n ?xs)"
    by (metis Un_iff append_take_drop_id set_append)
  moreover have "k \<notin> set (take n ?xs)" using k(2) by (auto simp: take_map)
  ultimately have kd: "k \<in> set (drop n ?xs)" by simp
  have "sorted (map timestamp (take n ?xs @ drop n ?xs))" by simp
  then show ?thesis using dt kd
    by (simp add: sorted_append del: append_take_drop_id)
qed


lemma primary_key_insert_or_replace: "primary_key db \<Longrightarrow> primary_key (insert_or_replace new db)"
  by (auto simp: primary_key_def insert_or_replace_def distinct_map_filter)

lemma primary_key_cleanup: "primary_key db \<Longrightarrow> primary_key (cleanup_if_needed cfg db)"
  by (simp add: primary_key_def cleanup_if_needed_def Let_def distinct_map_filter)

lemma primary_key_set:
  "primary_key db \<Longrightarrow> primary_key (snd (AnalysisCache_set cfg dumps now db fp h data))"
  by (simp add: AnalysisCache_set_def Let_def primary_key_insert_or_replace primary_key_cleanup
           split: option.splits)

text \<open>
  C7. On a table that respects its primary key: a \<open>set\<close> call that stores a row stores it
  into the table left by the eviction check (the check runs first, the insert second; a
  disabled cache does neither). The check leaves a table within the byte budget
  \<open>max_size * 1024 * 1024\<close> unchanged. On a table over the budget it deletes
  \<open>min (total_size div 5) (number of rows)\<close> rows, a fifth of the byte total read as a
  number of rows, and every deleted row is at least as old as every row that is kept.
\<close>

theorem set_evicts_before_insert:
  assumes "primary_key db"
  shows "(enabled cfg \<longrightarrow> dumps data = Some s \<longrightarrow>
            snd (AnalysisCache_set cfg dumps now db fp h data)
              = insert_or_replace
                  \<lparr>file_path = fp, content_hash = h, analysis_data = s,
                   timestamp = \<lfloor>now\<rfloor>, file_size = length s\<rparr>
                  (cleanup_if_needed cfg db))
       \<and> (int (sum_list (map file_size db)) \<le> max_size cfg * 1024 * 1024 \<longrightarrow>
            cleanup_if_needed cfg db = db)
       \<and> (int (sum_list (map file_size db)) > max_size cfg * 1024 * 1024 \<longrightarrow>
            length (cleanup_if_needed cfg db)
              = length db - min (sum_list (map file_size db) div 5) (length db)
          \<and> set (cleanup_if_needed cfg db) \<subseteq> set db
          \<and> (\<forall>d \<in> set db - set (cleanup_if_needed cfg db).
               \<forall>k \<in> set (cleanup_if_needed cfg db). timestamp d \<le> timestamp k))"
proof (intro conjI impI)
  assume "enabled cfg" "dumps data = Some s"
  then show "snd (AnalysisCache_set cfg dumps now db fp h data)
              = insert_or_replace
                  \<lparr>file_path = fp, content_hash = h, analysis_data = s,
                   timestamp = \<lfloor>now\<rfloor>, file_size = length s\<rparr>
                  (cleanup_if_needed cfg db)"
    by (simp add: AnalysisCache_set_def Let_def)
next
  assume "int (sum_list (map file_size db)) \<le> max_size cfg * 1024 * 1024"
  then show "cleanup_if_needed cfg db = db"
    by (simp add: cleanup_if_needed_def Let_def)
next
  let ?n = "sum_list (map file_size db) div 5"
  let ?victims = "take ?n (map file_path (sort_key timestamp db))"
  assume over: "int (sum_list (map file_size db)) > max_size cfg * 1024 * 1024"
  then have c: "cleanup_if_needed cfg db = filter (\<lambda>r. file_path r \<notin> set ?victims) db"
    by (simp add: cleanup_if_needed_def Let_def)
  show "length (cleanup_if_needed cfg db) = length db - min ?n (length db)"
    unfolding c using assms by (rule length_evict)
  show "set (cleanup_if_needed cfg db) \<subseteq> set db"
    unfolding c by auto
  show "\<forall>d \<in> set db - set (cleanup_if_needed cfg db).
          \<forall>k \<in> set (cleanup_if_needed cfg db). timestamp d \<le> timestamp k"
    unfolding c using oldest_first [OF assms] by auto
qed

theorem set_evicts_before_insert_witness:
  "primary_key example_db
   \<and> enabled \<lparr>enabled = True, ttl = 60, max_size = 0\<rparr>
   \<and> int (sum_list (map file_size example_db)) > max_size \<lparr>enabled = True, ttl = 60, max_size = 0\<rparr> * 1024 * 1024
   \<and> int (sum_list (map file_size example_db)) \<le> max_size \<lparr>enabled = True, ttl = 60, max_size = 100\<rparr> * 1024 * 1024
   \<and> cleanup_if_needed \<lparr>enabled = True, ttl = 60, max_size = 100\<rparr> example_db = example_db
   \<and> map file_path (cleanup_if_needed \<lparr>enabled = True, ttl = 60, max_size = 0\<rparr> example_db) = [''a.py'', ''c.py'']
   \<and> length (cleanup_if_needed \<lparr>enabled = True, ttl = 60, max_size = 0\<rparr> example_db)
       = length example_db - min (sum_list (map file_size example_db) div 5) (length example_db)
   \<and> map timestamp (cleanup_if_needed \<lparr>enabled = True, ttl = 60, max_size = 0\<rparr> example_db) = [30, 20]
   \<and> map timestamp
        (filter (\<lambda>r. r \<notin> set (cleanup_if_needed \<lparr>enabled = True, ttl = 60, max_size = 0\<rparr> example_db))
           example_db) = [10]
   \<and> map file_path
        (snd (AnalysisCache_set \<lparr>enabled = True, ttl = 60, max_size = 0\<rparr> Some 40 example_db ''d.py'' ''h4'' ''{}''))
       = [''a.py'', ''c.py'', ''d.py'']"
proof -
  have pk: "primary_key example_db"
    by (simp add: primary_key_def example_db_def)
  have c: "map file_path (cleanup_if_needed \<lparr>enabled = True, ttl = 60, max_size = 0\<rparr> example_db) = [''a.py'', ''c.py'']"
    by (simp add: example_db_def cleanup_if_needed_def)
  have t: "map timestamp (cleanup_if_needed \<lparr>enabled = True, ttl = 60, max_size = 0\<rparr> example_db) = [30, 20]"
    "map timestamp
        (filter (\<lambda>r. r \<notin> set (cleanup_if_needed \<lparr>enabled = True, ttl = 60, max_size = 0\<rparr> example_db))
           example_db) = [10]"
    by (simp_all add: example_db_def cleanup_if_needed_def)
  have over: "int (sum_list (map file_size example_db)) > max_size \<lparr>enabled = True, ttl = 60, max_size = 0\<rparr> * 1024 * 1024"
    by (simp add: example_db_def)
  have under: "int (sum_list (map file_size example_db)) \<le> max_size \<lparr>enabled = True, ttl = 60, max_size = 100\<rparr> * 1024 * 1024"
    by (simp add: example_db_def)
  have s: "map file_path
        (insert_or_replace \<lparr>file_path = ''d.py'', content_hash = ''h4'', analysis_data = ''{}'',
            timestamp = \<lfloor>40\<rfloor>, file_size = length ''{}''\<rparr>
           (cleanup_if_needed \<lparr>enabled = True, ttl = 60, max_size = 0\<rparr> example_db))
       = [''a.py'', ''c.py'', ''d.py'']"
    by (simp add: example_db_def cleanup_if_needed_def insert_or_replace_def)
  note a = set_evicts_before_insert [OF pk, of "\<lparr>enabled = True, ttl = 60, max_size = 0\<rparr>" Some "''{}''" "''{}''" 40 "''d.py''" "''h4''"]
  note b = set_evicts_before_insert [OF pk, of "\<lparr>enabled = True, ttl = 60, max_size = 100\<rparr>" Some "''{}''" "''{}''" 40 "''d.py''" "''h4''"]
  from a over have a1: "length (cleanup_if_needed \<lparr>enabled = True, ttl = 60, max_size = 0\<rparr> example_db)
       = length example_db - min (sum_list (map file_size example_db) div 5) (length example_db)"
    by blast
  from a have a3: "snd (AnalysisCache_set \<lparr>enabled = True, ttl = 60, max_size = 0\<rparr> Some 40 example_db ''d.py'' ''h4'' ''{}'')
     = insert_or_replace \<lparr>file_path = ''d.py'', content_hash = ''h4'', analysis_data = ''{}'',
            timestamp = \<lfloor>40\<rfloor>, file_size = length ''{}''\<rparr>
           (cleanup_if_needed \<lparr>enabled = True, ttl = 60, max_size = 0\<rparr> example_db)"
    by simp
  from b under have b1: "cleanup_if_needed \<lparr>enabled = True, ttl = 60, max_size = 100\<rparr> example_db = example_db"
    by blast
  have s2: "map file_path
        (snd (AnalysisCache_set \<lparr>enabled = True, ttl = 60, max_size = 0\<rparr> Some 40 example_db ''d.py'' ''h4'' ''{}''))
       = [''a.py'', ''c.py'', ''d.py'']"
    using s a3 by simp
  show ?thesis
    using pk over under b1 c a1 t s2 by simp
qed

section \<open>Properties of dependency resolution\<close>

lemma read_file_dependency_cache:
  "dependency_cache (snd (read_file fs s fp)) = dependency_cache s"
  by (simp add: read_file_def split: option.splits sum.splits)

lemma direct_dependencies_Nil [simp]: "direct_dependencies fs ws [] = {}"
  by (simp add: direct_dependencies_def)










section \<open>Properties of the analyzers\<close>

text \<open>
  C2. When the text read for the file is not empty and \<open>ast.parse\<close> raises a SyntaxError
  on it, \<open>PythonAnalyzer.analyze_file\<close> raises nothing: it returns a result whose errors
  are the one diagnostic \<open>Syntax error: ...\<close> and whose blocks, dependencies, warnings and
  metrics are empty. (The empty text parses, so no file with a syntax error is left out.)
\<close>

theorem syntax_error_is_data:
  assumes "read_file fs s fp = (Inr (Some text), s1)"
    and "text \<noteq> []"
    and "parse text = Inl msg"
  shows "PythonAnalyzer_analyze_file parse cleandoc fs s fp =
           (Inr \<lparr>result_file_path = fp, language = PYTHON, blocks = [], dependencies = [],
                 errors = [''Syntax error: '' @ msg], warnings = [], metrics = []\<rparr>, s1)"
  using assms by (simp add: PythonAnalyzer_analyze_file_def truthy_def)

theorem syntax_error_is_data_witness:
  "fst (read_file example_fs example_analyzer ''/ws/bad.py'') = Inr (Some (''def f(:'' @ [CHR 0x0A]))
   \<and> ''def f(:'' @ [CHR 0x0A] \<noteq> []
   \<and> example_parse (''def f(:'' @ [CHR 0x0A]) = Inl ''invalid syntax (<unknown>, line 1)''
   \<and> fst (PythonAnalyzer_analyze_file example_parse id example_fs example_analyzer ''/ws/bad.py'')
       = Inr \<lparr>result_file_path = ''/ws/bad.py'', language = PYTHON, blocks = [],
               dependencies = [],
               errors = [''Syntax error: invalid syntax (<unknown>, line 1)''],
               warnings = [], metrics = []\<rparr>"
proof -
  let ?text = "''def f(:'' @ [CHR 0x0A]"
  have r1: "fst (read_file example_fs example_analyzer ''/ws/bad.py'') = Inr (Some ?text)"
    by code_simp
  have r2: "?text \<noteq> []" by simp
  have r3: "example_parse ?text = Inl ''invalid syntax (<unknown>, line 1)''" by code_simp
  have rd: "read_file example_fs example_analyzer ''/ws/bad.py''
              = (Inr (Some ?text), snd (read_file example_fs example_analyzer ''/ws/bad.py''))"
    using r1 by (metis prod.collapse)
  from syntax_error_is_data [where parse = example_parse and cleandoc = id, OF rd r2 r3] r1 r3
  show ?thesis by simp
qed

text \<open>
  The import of types/web.py raises \<open>TypeError\<close> at the class \<open>TypeScriptType\<close>, while
  types/common.py loads; so every call of \<open>ReactAnalyzer.analyze_file\<close> in the program
  ends with that \<open>TypeError\<close>.
\<close>

lemma import_types_common_loads: "import_types_common = Inr ()"
  by (simp add: import_types_common_def dataclass_def FileLocation_fields_def
        CodeBlock_fields_def Dependency_fields_def AnalysisResult_fields_def
        AnalysisOptions_fields_def)

lemma TypeScriptType_raises: "dataclass TypeScriptType_fields = Inl TypeError"
  by (simp add: dataclass_def TypeScriptType_fields_def)

lemma import_types_web_raises: "import_types_web = Inl TypeError"
  by (simp add: import_types_web_def import_types_common_loads dataclass_def
        ReactComponent_fields_def ReactHook_fields_def TypeScriptType_fields_def)

lemma react_analyze_file_raises:
  "ReactAnalyzer_analyze_file rx fs s fp = (Inl TypeError, s)"
  by (simp add: ReactAnalyzer_analyze_file_def import_types_web_raises)

text \<open>
  The method as it is written: a result that it returns comes from the constructor call
  with six keyword arguments, and has no errors, no blocks and no dependencies.
\<close>

lemma react_method_result_init:
  assumes "ReactAnalyzer_analyze_file_method rx fs s fp = (Inr w, s2)"
  shows "\<exists>cs hs ts st im. w = WebAnalysisResult_init fp ''react'' cs hs ts st im"
  using assms
  by (auto simp: ReactAnalyzer_analyze_file_method_def Let_def
           split: prod.splits sum.splits if_splits intro!: exI)

lemma react_method_result_empty:
  assumes "ReactAnalyzer_analyze_file_method rx fs s fp = (Inr w, s2)"
  shows "errors w = [] \<and> blocks w = [] \<and> dependencies w = []"
  using react_method_result_init [OF assms] by (auto simp: WebAnalysisResult_init_def)

lemma react_result_empty:
  assumes "ReactAnalyzer_analyze_file rx fs s fp = (Inr w, s2)"
  shows "errors w = [] \<and> blocks w = [] \<and> dependencies w = []"
  using assms react_method_result_empty [of rx fs s fp w s2]
  by (simp add: ReactAnalyzer_analyze_file_def split: sum.splits)

lemma python_result_errors:
  assumes "PythonAnalyzer_analyze_file parse cleandoc fs s fp = (Inr r, s1)" and "errors r \<noteq> []"
  shows "blocks r = [] \<and> dependencies r = []"
  using assms
  by (auto simp: PythonAnalyzer_analyze_file_def Let_def split: prod.splits sum.splits if_splits)

text \<open>
  C1. A result that \<open>PythonAnalyzer.analyze_file\<close> returns with a non-empty \<open>errors\<close> list
  has no blocks and no dependencies; a result that \<open>ReactAnalyzer.analyze_file\<close> returns
  has no errors at all (and no blocks and no dependencies). For the React analyzer this
  is what the method as written gives whenever it returns; in the program the import of
  types/web.py raises first, and no call returns a result.
\<close>

theorem errors_exclude_structure:
  "(PythonAnalyzer_analyze_file parse cleandoc fs s fp = (Inr r, s1) \<longrightarrow> errors r \<noteq> [] \<longrightarrow>
      blocks r = [] \<and> dependencies r = [])
   \<and> (ReactAnalyzer_analyze_file rx fs' s' fp' = (Inr w, s2) \<longrightarrow>
        errors w = [] \<and> blocks w = [] \<and> dependencies w = [])"
  using python_result_errors react_result_empty by blast

theorem errors_exclude_structure_witness:
  "map_sum id errors
     (fst (PythonAnalyzer_analyze_file example_parse id example_fs example_analyzer ''/ws/bad.py''))
     = Inr [''Syntax error: invalid syntax (<unknown>, line 1)'']
   \<and> map_sum id blocks
     (fst (PythonAnalyzer_analyze_file example_parse id example_fs example_analyzer ''/ws/bad.py''))
     = Inr []
   \<and> map_sum id dependencies
     (fst (PythonAnalyzer_analyze_file example_parse id example_fs example_analyzer ''/ws/bad.py''))
     = Inr []
   \<and> fst (ReactAnalyzer_analyze_file example_react_methods example_fs example_analyzer ''/ws/App.tsx'')
     = Inl TypeError
   \<and> map_sum id (\<lambda>w. (errors w, blocks w, dependencies w))
     (fst (ReactAnalyzer_analyze_file_method example_react_methods example_fs example_analyzer
             ''/ws/App.tsx''))
     = Inr ([], [], [])"
proof -
  let ?py = "PythonAnalyzer_analyze_file example_parse id example_fs example_analyzer ''/ws/bad.py''"
  let ?re = "ReactAnalyzer_analyze_file example_react_methods example_fs example_analyzer ''/ws/App.tsx''"
  let ?me = "ReactAnalyzer_analyze_file_method example_react_methods example_fs example_analyzer
               ''/ws/App.tsx''"
  have e: "map_sum id errors (fst ?py) = Inr [''Syntax error: invalid syntax (<unknown>, line 1)'']"
    by code_simp
  then obtain r where r: "fst ?py = Inr r" by (cases "fst ?py") auto
  have py: "?py = (Inr r, snd ?py)" using r by (metis prod.collapse)
  have re: "fst ?re = Inl TypeError" by (simp add: react_analyze_file_raises)
  have me: "map_sum id (\<lambda>w. (errors w, blocks w, dependencies w)) (fst ?me) = Inr ([], [], [])"
    by code_simp
  from e r have "errors r \<noteq> []" by auto
  with errors_exclude_structure [of example_parse id example_fs example_analyzer "''/ws/bad.py''" r
      "snd ?py"] py
  have "blocks r = [] \<and> dependencies r = []"
    by blast
  with e r re me show ?thesis by simp
qed

section \<open>Complexity score and warnings\<close>

lemma foldl_complexity_step:
  "foldl complexity_step c ns = c + sum_list (map (complexity_step 0) ns)"
proof (induction ns arbitrary: c)
  case Nil
  then show ?case by simp
next
  case (Cons n ns)
  have "complexity_step c n = c + complexity_step 0 n"
    by (induction c n rule: complexity_step.induct) simp_all
  then show ?case using Cons.IH [of "complexity_step c n"] by simp
qed

lemma complexity_step_classes:
  "\<not> other_counted n \<Longrightarrow>
     complexity_step 0 n = of_bool (is_if n) + of_bool (is_try n) + of_bool (is_handler n)"
  by (induction "0 :: int" n rule: complexity_step.induct) simp_all

lemma sum_complexity_steps:
  "list_all (\<lambda>n. \<not> other_counted n) ns \<Longrightarrow>
     sum_list (map (complexity_step 0) ns)
       = int (length (filter is_if ns)) + int (length (filter is_try ns))
         + int (length (filter is_handler ns))"
  by (induction ns) (auto simp: complexity_step_classes)

lemma node_warnings_other:
  "\<not> is_handler n \<Longrightarrow> mutable_defaults n = [] \<Longrightarrow> node_warnings n = []"
  by (induction n rule: node_warnings.induct) simp_all

lemma concat_node_warnings:
  "list_all (\<lambda>n. mutable_defaults n = []) ns \<Longrightarrow>
     concat (map node_warnings ns) = concat (map node_warnings (filter is_handler ns))"
  by (induction ns) (auto simp: node_warnings_other)

lemma walk_module: "walk [NModule body] = NModule body # walk (map NStmt body)"
  by simp

text \<open>
  C3, as amended. An \<open>except\<close> handler lies in a \<open>try\<close> statement, and the score counts the
  \<open>try\<close> as well as its handler. A function whose nodes hold exactly one \<open>if\<close>, exactly one
  \<open>try\<close> and exactly one handler, this one \<open>except Exception:\<close> at line \<open>lineno\<close>, and no
  other counted construct, has the score 4: the base 1, +1 for the \<open>if\<close>, +1 for the \<open>try\<close>,
  +1 for the handler. When the function is the whole file and has no mutable default, the
  result of the analysis carries exactly one warning, the one of the broad handler at its
  line.
\<close>

theorem one_if_one_try_one_handler:
  assumes "length (filter is_if (walk [NStmt fn])) = 1"
    and "length (filter is_try (walk [NStmt fn])) = 1"
    and "filter is_handler (walk [NStmt fn])
           = [NHandler (ExceptHandler (Some (Name ''Exception'')) hbody lineno)]"
    and "list_all (\<lambda>n. \<not> other_counted n) (walk [NStmt fn])"
    and "list_all (\<lambda>n. mutable_defaults n = []) (walk [NStmt fn])"
    and "read_file fs s fp = (Inr (Some text), s1)"
    and "text \<noteq> []"
    and "parse text = Inr [fn]"
    and "PythonAnalyzer_analyze_file parse cleandoc fs s fp = (Inr r, s2)"
  shows "calculate_complexity (NStmt fn) = 4
       \<and> warnings r = [''Broad exception handler at line '' @ str_int lineno]"
proof
  show "calculate_complexity (NStmt fn) = 4"
    using assms(1-4)
    by (simp add: calculate_complexity_def foldl_complexity_step sum_complexity_steps
             del: walk.simps)
  have "collect_warnings (NModule [fn]) = concat (map node_warnings (walk [NStmt fn]))"
    by (simp add: collect_warnings_def)
  also have "\<dots> = concat (map node_warnings (filter is_handler (walk [NStmt fn])))"
    using assms(5) by (rule concat_node_warnings)
  finally have w: "collect_warnings (NModule [fn])
          = [''Broad exception handler at line '' @ str_int lineno]"
    by (simp add: assms(3) del: walk.simps)
  from assms(6-9) have "warnings r = collect_warnings (NModule [fn])"
    by (auto simp: PythonAnalyzer_analyze_file_def truthy_def Let_def split: sum.splits)
  with w show "warnings r = [''Broad exception handler at line '' @ str_int lineno]"
    by simp
qed


theorem one_if_one_try_one_handler_witness:
  "length (filter is_if (walk [NStmt example_function])) = 1
   \<and> length (filter is_try (walk [NStmt example_function])) = 1
   \<and> filter is_handler (walk [NStmt example_function])
       = [NHandler (ExceptHandler (Some (Name ''Exception''))
                      [OtherStmt [Name ''y'', Constant (CInt 3)] []] 6)]
   \<and> list_all (\<lambda>n. \<not> other_counted n) (walk [NStmt example_function])
   \<and> list_all (\<lambda>n. mutable_defaults n = []) (walk [NStmt example_function])
   \<and> fst (read_file example_fs example_analyzer ''/ws/f.py'') = Inr (Some example_function_text)
   \<and> example_function_text \<noteq> []
   \<and> example_parse example_function_text = Inr [example_function]
   \<and> calculate_complexity (NStmt example_function) = 4
   \<and> map_sum id warnings
         (fst (PythonAnalyzer_analyze_file example_parse id example_fs example_analyzer ''/ws/f.py''))
       = Inr [''Broad exception handler at line 6'']"
proof -
  let ?h = "NHandler (ExceptHandler (Some (Name ''Exception''))
                        [OtherStmt [Name ''y'', Constant (CInt 3)] []] 6)"
  let ?run = "PythonAnalyzer_analyze_file example_parse id example_fs example_analyzer ''/ws/f.py''"
  have c1: "length (filter is_if (walk [NStmt example_function])) = 1" by code_simp
  have c2: "length (filter is_try (walk [NStmt example_function])) = 1" by code_simp
  have c3: "filter is_handler (walk [NStmt example_function]) = [?h]" by code_simp
  have c4: "list_all (\<lambda>n. \<not> other_counted n) (walk [NStmt example_function])" by code_simp
  have c5: "list_all (\<lambda>n. mutable_defaults n = []) (walk [NStmt example_function])" by code_simp
  have r1: "fst (read_file example_fs example_analyzer ''/ws/f.py'') = Inr (Some example_function_text)"
    by code_simp
  have r2: "example_function_text \<noteq> []" by code_simp
  have r3: "example_parse example_function_text = Inr [example_function]" by code_simp
  have ok: "isl (fst ?run) = False" by code_simp
  then obtain r where r: "fst ?run = Inr r" by (cases "fst ?run") auto
  have rd: "read_file example_fs example_analyzer ''/ws/f.py''
              = (Inr (Some example_function_text), snd (read_file example_fs example_analyzer ''/ws/f.py''))"
    using r1 by (metis prod.collapse)
  have run: "?run = (Inr r, snd ?run)"
    using r by (metis prod.collapse)
  have s6: "str_int 6 = ''6''" by code_simp
  from one_if_one_try_one_handler [OF c1 c2 c3 c4 c5 rd r2 r3 run]
  have "calculate_complexity (NStmt example_function) = 4"
    and "warnings r = [''Broad exception handler at line 6'']"
    by (simp_all add: s6)
  with c1 c2 c3 c4 c5 r1 r2 r3 r show ?thesis by simp
qed

text \<open>
  The function \<open>process\<close> of \<open>f.py\<close> has exactly one \<open>if\<close> and exactly one handler,
  \<open>except Exception:\<close>; its score is not 3.
\<close>

theorem complexity_3_counterexample:
  "length (filter is_if (walk [NStmt example_function])) = 1
   \<and> filter is_handler (walk [NStmt example_function])
       = [NHandler (ExceptHandler (Some (Name ''Exception''))
                      [OtherStmt [Name ''y'', Constant (CInt 3)] []] 6)]
   \<and> calculate_complexity (NStmt example_function) \<noteq> 3"
  by code_simp

section \<open>Results of the React analyzer, empty files, metrics\<close>

lemma react_method_dependency_cache:
  "dependency_cache (snd (ReactAnalyzer_analyze_file_method rx fs s fp)) = dependency_cache s"
proof -
  have "snd (ReactAnalyzer_analyze_file_method rx fs s fp) = snd (read_file fs s fp)"
    by (simp add: ReactAnalyzer_analyze_file_method_def Let_def split: prod.splits sum.splits)
  then show ?thesis by (simp add: read_file_dependency_cache)
qed

lemma ran_upd_empty: "ran m \<subseteq> {{}} \<Longrightarrow> ran (m(k \<mapsto> {})) \<subseteq> {{}}"
  by (auto simp: ran_def)

text \<open>
  The method \<open>analyze_file\<close> of the React analyzer as it is written. A result that it
  returns has an empty \<open>blocks\<close> list and an empty \<open>dependencies\<close> list, so
  \<open>get_dependencies\<close> of it is empty; and from a memo whose sets are all empty (as in a new
  analyzer), a resolution through the method that returns a set returns the empty set,
  at any depth, and leaves a memo whose sets are all empty.
\<close>

lemma react_method_drops_structure:
  assumes "ran (dependency_cache s) \<subseteq> {{}}"
  shows "(ReactAnalyzer_analyze_file_method rx fs s fp = (Inr w, s1) \<longrightarrow>
            blocks w = [] \<and> dependencies w = [] \<and> get_dependencies w = [])
       \<and> (analyze_dependencies (ReactAnalyzer_analyze_file_method rx fs) fs stack s fp depth
            = (Inr ds, s2) \<longrightarrow>
            ds = {} \<and> ran (dependency_cache s2) \<subseteq> {{}})"
proof (intro conjI impI)
  assume "ReactAnalyzer_analyze_file_method rx fs s fp = (Inr w, s1)"
  then have "blocks w = [] \<and> dependencies w = []"
    using react_method_result_empty by blast
  then show "blocks w = []" "dependencies w = []" "get_dependencies w = []"
    by (simp_all add: get_dependencies_def)
next
  assume run: "analyze_dependencies (ReactAnalyzer_analyze_file_method rx fs) fs stack s fp depth
                 = (Inr ds, s2)"
  have "ds = {} \<and> ran (dependency_cache s2) \<subseteq> {{}}"
  proof (cases "depth < 1")
    case True
    with run assms show ?thesis by (simp add: analyze_dependencies.simps)
  next
    case False
    show ?thesis
    proof (cases "dependency_cache s fp")
      case (Some c)
      with assms have "c = {}" by (auto simp: ran_def)
      with run False Some assms show ?thesis by (auto simp: analyze_dependencies.simps)
    next
      case None
      obtain res t where af: "ReactAnalyzer_analyze_file_method rx fs s fp = (res, t)"
        by (cases "ReactAnalyzer_analyze_file_method rx fs s fp")
      with run False None obtain w where w: "res = Inr w"
        by (cases res) (auto simp: analyze_dependencies.simps)
      from af w have d: "dependencies w = []" using react_method_result_empty by blast
      from af have t: "dependency_cache t = dependency_cache s"
        using react_method_dependency_cache [of rx fs s fp] by simp
      from run False None af w d
      have "ds = {}" "s2 = t\<lparr>dependency_cache := (dependency_cache t)(fp \<mapsto> {})\<rparr>"
        by (auto simp: analyze_dependencies.simps)
      with t assms show ?thesis by (simp add: ran_upd_empty)
    qed
  qed
  then show "ds = {}" "ran (dependency_cache s2) \<subseteq> {{}}" by simp_all
qed

text \<open>
  C9. In the program no \<open>WebAnalysisResult\<close> is returned for \<open>App.tsx\<close>, nor for any
  other file: creating the dataclass \<open>TypeScriptType\<close> raises \<open>TypeError\<close> while
  types/web.py is imported, so \<open>ReactAnalyzer.analyze_file\<close> ends with that error, and so
  does a resolution through it, where the empty result and the empty set were to come.
  (The method as written, were it reached, returns for \<open>App.tsx\<close> a result with no
  blocks and no dependencies although the file imports \<open>./Button.tsx\<close>.)
\<close>

theorem react_analysis_raises_type_error:
  "dataclass TypeScriptType_fields = Inl TypeError
   \<and> import_types_web = Inl TypeError
   \<and> ReactAnalyzer_analyze_file example_react_methods example_fs example_analyzer ''/ws/App.tsx''
       = (Inl TypeError, example_analyzer)
   \<and> analyze_dependencies (ReactAnalyzer_analyze_file example_react_methods example_fs)
         example_fs 990 example_analyzer ''/ws/App.tsx'' 3
       = (Inl TypeError, example_analyzer)
   \<and> direct_dependencies example_fs ''/ws''
         (react_build_dependencies (react_analyze_imports example_react_methods example_app_text))
       = {''/ws/Button.tsx''}
   \<and> map_sum id (\<lambda>w. (blocks w, dependencies w, get_dependencies w))
         (fst (ReactAnalyzer_analyze_file_method example_react_methods example_fs example_analyzer
                 ''/ws/App.tsx''))
       = Inr ([], [], [])"
proof -
  have m: "dependency_cache example_analyzer ''/ws/App.tsx'' = None"
    by (simp add: example_analyzer_def BaseAnalyzer_init_def)
  have r: "analyze_dependencies (ReactAnalyzer_analyze_file example_react_methods example_fs)
         example_fs 990 example_analyzer ''/ws/App.tsx'' 3
       = (Inl TypeError, example_analyzer)"
    by (simp add: analyze_dependencies.simps m react_analyze_file_raises)
  have d: "direct_dependencies example_fs ''/ws''
         (react_build_dependencies (react_analyze_imports example_react_methods example_app_text))
       = {''/ws/Button.tsx''}"
    by code_simp
  have w: "map_sum id (\<lambda>w. (blocks w, dependencies w, get_dependencies w))
         (fst (ReactAnalyzer_analyze_file_method example_react_methods example_fs example_analyzer
                 ''/ws/App.tsx''))
       = Inr ([], [], [])"
    by code_simp
  from r d w show ?thesis
    by (simp add: TypeScriptType_raises import_types_web_raises react_analyze_file_raises)
qed

text \<open>
  For a file that exists, holds zero bytes, is within the size limit and reads as the
  empty text, with no other text memoised for its path, \<open>read_file\<close> returns the empty
  string, and \<open>analyze_file\<close> of the Python analyzer, and the method of the React analyzer
  as written, raise ValueError \<open>Could not read file: ...\<close>. A path \<open>fq\<close> that does not
  exist, for which \<open>read_file\<close> returns \<open>None\<close>, gets the same error.
\<close>

lemma empty_file_raises_value_error:
  assumes "files fs fp = Some f"
    and "st_size f = 0"
    and "read_text f = Inr []"
    and "0 \<le> max_file_size (options s)"
    and "file_cache s fp = None \<or> file_cache s fp = Some []"
    and "files fs fq = None"
    and "file_cache s fq = None"
  shows "fst (read_file fs s fp) = Inr (Some [])
       \<and> fst (PythonAnalyzer_analyze_file parse cleandoc fs s fp)
           = Inl (ValueError (''Could not read file: '' @ fp))
       \<and> fst (ReactAnalyzer_analyze_file_method rx fs s fp)
           = Inl (ValueError (''Could not read file: '' @ fp))
       \<and> fst (read_file fs s fq) = Inr None
       \<and> fst (PythonAnalyzer_analyze_file parse cleandoc fs s fq)
           = Inl (ValueError (''Could not read file: '' @ fq))
       \<and> fst (ReactAnalyzer_analyze_file_method rx fs s fq)
           = Inl (ValueError (''Could not read file: '' @ fq))"
proof -
  have r: "\<exists>s1. read_file fs s fp = (Inr (Some []), s1)"
    using assms(1-5) by (auto simp: read_file_def)
  have q: "read_file fs s fq = (Inr None, s)"
    using assms(6,7) by (simp add: read_file_def)
  from r q show ?thesis
    by (auto simp: PythonAnalyzer_analyze_file_def ReactAnalyzer_analyze_file_method_def
                   truthy_def)
qed

text \<open>
  C10. The zero-byte files \<open>empty.py\<close> and \<open>empty.tsx\<close> of the workspace read as the
  empty string. \<open>PythonAnalyzer.analyze_file\<close> raises ValueError \<open>Could not read file:
  /ws/empty.py\<close>. \<open>ReactAnalyzer.analyze_file\<close> raises \<open>TypeError\<close>, the error of the import
  of types/web.py, and not the ValueError that its method as written raises on the empty
  text.
\<close>

theorem empty_react_file_raises_type_error:
  "files example_fs ''/ws/empty.py'' = Some \<lparr>st_size = 0, read_text = Inr []\<rparr>
   \<and> files example_fs ''/ws/empty.tsx'' = Some \<lparr>st_size = 0, read_text = Inr []\<rparr>
   \<and> fst (read_file example_fs example_analyzer ''/ws/empty.py'') = Inr (Some [])
   \<and> fst (read_file example_fs example_analyzer ''/ws/empty.tsx'') = Inr (Some [])
   \<and> fst (PythonAnalyzer_analyze_file example_parse id example_fs example_analyzer ''/ws/empty.py'')
       = Inl (ValueError ''Could not read file: /ws/empty.py'')
   \<and> fst (ReactAnalyzer_analyze_file example_react_methods example_fs example_analyzer
            ''/ws/empty.tsx'')
       = Inl TypeError
   \<and> fst (ReactAnalyzer_analyze_file_method example_react_methods example_fs example_analyzer
            ''/ws/empty.tsx'')
       = Inl (ValueError ''Could not read file: /ws/empty.tsx'')
   \<and> TypeError \<noteq> ValueError ''Could not read file: /ws/empty.tsx''"
proof -
  have f: "files example_fs ''/ws/empty.py'' = Some \<lparr>st_size = 0, read_text = Inr []\<rparr>"
    "files example_fs ''/ws/empty.tsx'' = Some \<lparr>st_size = 0, read_text = Inr []\<rparr>"
    by (simp_all add: example_fs_def example_texts_def)
  have m: "0 \<le> max_file_size (options example_analyzer)"
    by (simp add: example_analyzer_def BaseAnalyzer_init_def AnalysisOptions_default_def)
  have c: "file_cache example_analyzer ''/ws/empty.py'' = None"
    "file_cache example_analyzer ''/ws/empty.tsx'' = None"
    "file_cache example_analyzer ''/ws/none.py'' = None"
    by (simp_all add: example_analyzer_def BaseAnalyzer_init_def)
  have n: "files example_fs ''/ws/none.py'' = None"
    by (simp add: example_fs_def example_texts_def)
  from empty_file_raises_value_error [OF f(1) _ _ m _ n c(3), of example_parse id example_react_methods]
    empty_file_raises_value_error [OF f(2) _ _ m _ n c(3), of example_parse id example_react_methods]
    c f
  show ?thesis by (simp add: react_analyze_file_raises)
qed

lemma python_metrics_of_parsed_file:
  assumes "PythonAnalyzer_analyze_file parse cleandoc fs s fp = (Inr r, s1)" and "errors r = []"
  shows "map (map_of (metrics r)) [''total_lines'', ''code_lines'', ''comment_lines'', ''empty_lines'']
           = [Some (MInt 0), Some (MInt 0), Some (MInt 0), Some (MInt 0)]"
proof -
  from assms obtain tree fns clss where
    "metrics r = collect_python_metrics tree fns clss"
    by (auto simp: PythonAnalyzer_analyze_file_def Let_def split: prod.splits sum.splits if_splits)
  then show ?thesis
    by (simp add: collect_python_metrics_def collect_metrics_def dict_update_def splitlines_def)
qed

text \<open>
  C8. The four line counts in the metrics of every successfully parsed file are 0: they
  are the counts of the empty string that \<open>_collect_python_metrics\<close> passes to
  \<open>collect_metrics\<close>. For \<open>m.py\<close>, whose text has one line, \<open>total_lines\<close> is 0.
\<close>

theorem python_metrics_ignore_text:
  "fst (read_file example_fs example_analyzer ''/ws/m.py'') = Inr (Some (''x = 1'' @ [CHR 0x0A]))
   \<and> length (splitlines (''x = 1'' @ [CHR 0x0A])) = 1
   \<and> map_sum id (\<lambda>r. map (map_of (metrics r))
                         [''total_lines'', ''code_lines'', ''comment_lines'', ''empty_lines''])
        (fst (PythonAnalyzer_analyze_file example_parse id example_fs example_analyzer ''/ws/m.py''))
       = Inr [Some (MInt 0), Some (MInt 0), Some (MInt 0), Some (MInt 0)]"
  by code_simp

section \<open>Resolution over the example workspace\<close>














end
